theory Spec2Isabelle
  imports Complex_Main
begin

section \<open>The chat gateway of the interview assistant (src/app/api/chat/route.ts)\<close>

text \<open>
  The route is embedded function by function. JavaScript strings are modelled as
  \<open>string\<close> (a list of 8-bit characters, read as the UTF-8 text); every string
  operation the route uses (\<open>split("\n")\<close>, \<open>startsWith\<close>, \<open>slice(6)\<close>, \<open>===\<close>)
  works on ASCII delimiters and therefore agrees on both representations. Texts are
  taken to be well-formed Unicode (no unpaired surrogate), so that encoding a string and
  decoding it again changes nothing. \<open>undefined\<close> is \<open>None\<close>.
\<close>

subsection \<open>JavaScript string primitives used by the route\<close>

definition truthy_str :: "string option \<Rightarrow> bool" where
  \<comment> \<open>ToBoolean of a \<open>string | undefined\<close>: \<open>undefined\<close> and \<open>""\<close> are falsy.\<close>
  "truthy_str v = (case v of None \<Rightarrow> False | Some s \<Rightarrow> s \<noteq> [])"

definition or_else :: "string option \<Rightarrow> string \<Rightarrow> string" where
  \<comment> \<open>\<open>v || d\<close> for a \<open>string | undefined\<close> on the left.\<close>
  "or_else v d = (case v of None \<Rightarrow> d | Some s \<Rightarrow> if s = [] then d else s)"

definition js_whitespace :: "char \<Rightarrow> bool" where
  \<comment> \<open>The ASCII part of what \<open>String.prototype.trim\<close> strips: TAB, LF, VT, FF, CR, SP.
      The other Unicode blanks it strips (U+00A0, U+FEFF, U+2028, U+2029, the space
      separators) are not modelled.\<close>
  "js_whitespace c = (c \<in> set [CHR 0x09, CHR 0x0A, CHR 0x0B, CHR 0x0C, CHR 0x0D, CHR 0x20])"

definition js_trim :: "string \<Rightarrow> string" where
  "js_trim s = rev (dropWhile js_whitespace (rev (dropWhile js_whitespace s)))"

definition startsWith :: "string \<Rightarrow> string \<Rightarrow> bool" where
  "startsWith s p = (take (length p) s = p)"

fun split_nl :: "string \<Rightarrow> string list" where
  \<comment> \<open>\<open>text.split("\n")\<close>: always at least one piece, the last piece may be empty.\<close>
  "split_nl [] = [[]]"
| "split_nl (c # cs) =
     (if c = CHR 0x0A then [] # split_nl cs
      else (case split_nl cs of [] \<Rightarrow> [[c]] | l # ls \<Rightarrow> (c # l) # ls))"

fun join :: "string \<Rightarrow> string list \<Rightarrow> string" where
  \<comment> \<open>\<open>xs.join(sep)\<close> on an array of strings.\<close>
  "join sep [] = []"
| "join sep [x] = x"
| "join sep (x # y # ys) = x @ sep @ join sep (y # ys)"

subsection \<open>Provider registry: \<open>detectProvider\<close> and the health probe \<open>GET\<close>\<close>

text \<open>
  \<open>process.env\<close> is a dictionary from variable names to strings; a variable that is
  not defined reads as \<open>undefined\<close>.
\<close>

type_synonym env = "string \<Rightarrow> string option"

datatype provider = OpenAI | Anthropic | HuggingFace | Ollama

definition detectProvider :: "env \<Rightarrow> provider option" where
  \<comment> \<open>\<open>null\<close> is \<open>None\<close>.\<close>
  "detectProvider env =
     (if truthy_str (env ''OPENAI_API_KEY'') then Some OpenAI
      else if truthy_str (env ''ANTHROPIC_API_KEY'') then Some Anthropic
      else if truthy_str (env ''OLLAMA_API_KEY'') then Some Ollama
      else if truthy_str (env ''HUGGINGFACE_API_KEY'') then Some HuggingFace
      else None)"

definition provider_name :: "provider \<Rightarrow> string" where
  \<comment> \<open>The string literal each member of the union type \<open>Provider\<close> stands for.\<close>
  "provider_name p =
     (case p of OpenAI \<Rightarrow> ''openai'' | Anthropic \<Rightarrow> ''anthropic''
      | HuggingFace \<Rightarrow> ''huggingface'' | Ollama \<Rightarrow> ''ollama'')"

record health =
  status :: string
  provider :: string
  availableProviders :: "(string \<times> bool) list"

definition GET :: "env \<Rightarrow> health" where
  "GET env =
     \<lparr> status = ''ok'',
       provider = (case detectProvider env of None \<Rightarrow> ''none'' | Some p \<Rightarrow> provider_name p),
       availableProviders =
         [(''openai'', truthy_str (env ''OPENAI_API_KEY'')),
          (''anthropic'', truthy_str (env ''ANTHROPIC_API_KEY'')),
          (''huggingface'', truthy_str (env ''HUGGINGFACE_API_KEY''))] \<rparr>"

definition present :: "env \<Rightarrow> string \<Rightarrow> bool" where
  \<comment> \<open>A credential is present when its variable holds a non-empty value: the test the
      route applies to every key (\<open>if (process.env.X)\<close>, \<open>!!process.env.X\<close>).\<close>
  "present env k = truthy_str (env k)"

subsection \<open>Prompt synthesizer: \<open>getSystemPrompt\<close>\<close>

text \<open>
  The three lookup tables are object literals, so \<open>table[key]\<close> also finds the members
  every object inherits from \<open>Object.prototype\<close>. Their text form is fixed by the engine,
  not by the route, and is the parameter \<open>native\<close> of the functions below.
\<close>

definition Object_prototype_keys :: "string list" where
  "Object_prototype_keys =
     [''constructor'', ''__defineGetter__'', ''__defineSetter__'', ''hasOwnProperty'',
      ''__lookupGetter__'', ''__lookupSetter__'', ''isPrototypeOf'', ''propertyIsEnumerable'',
      ''toString'', ''valueOf'', ''__proto__'', ''toLocaleString'']"

definition record_get :: "(string \<Rightarrow> string) \<Rightarrow> (string \<times> string) list \<Rightarrow> string \<Rightarrow> string option" where
  \<comment> \<open>\<open>table[key]\<close>, read where a string is expected.\<close>
  "record_get native table k =
     (case map_of table k of
        Some v \<Rightarrow> Some v
      | None \<Rightarrow> if k \<in> set Object_prototype_keys then Some (native k) else None)"

definition difficultyDescriptions :: "(string \<times> string) list" where
  "difficultyDescriptions =
     [(''beginner'', ''entry-level, focusing on fundamentals and basic concepts''),
      (''intermediate'', ''mid-level, covering practical experience and problem-solving''),
      (''advanced'', ''senior-level, including system design, architecture, and complex scenarios'')]"

definition typeDescriptions :: "(string \<times> string) list" where
  "typeDescriptions =
     [(''coding'', ''live coding challenges and algorithm questions''),
      (''multiple-choice'', ''quiz-style knowledge checks''),
      (''behavioral'', ''situational and behavioral questions (STAR method)''),
      (''technical'', ''deep technical concepts and system knowledge''),
      (''hr'', ''culture fit, soft skills, and career goals''),
      (''hiring-manager'', ''leadership, vision, and strategic thinking'')]"

definition typeLabels :: "(string \<times> string) list" where
  "typeLabels =
     [(''coding'', ''coding exercise''),
      (''behavioral'', ''behavioral questions''),
      (''technical'', ''technical discussion''),
      (''multiple-choice'', ''knowledge quiz''),
      (''hr'', ''HR/culture fit discussion''),
      (''hiring-manager'', ''leadership assessment'')]"

fun show_nat :: "nat \<Rightarrow> string" where
  "show_nat n =
     (if n < 10 then [char_of (48 + n)]
      else show_nat (n div 10) @ [char_of (48 + n mod 10)])"

definition show_int :: "int \<Rightarrow> string" where
  \<comment> \<open>\<open>`${n}`\<close> for a number that is an integer below \<open>1e21\<close> in size; beyond that,
      and for fractions, JavaScript prints another form, which is not modelled.\<close>
  "show_int i = (if i < 0 then CHR ''-'' # show_nat (nat (- i)) else show_nat (nat i))"

text \<open>The fixed pieces of the template literals, one string per source line.\<close>

definition beginner_guidelines :: string where
  \<open>beginner_guidelines =
     ''\<newline>Beginner-Level Guidelines:'' @
     ''\<newline>- Start with fundamental concepts and basic questions'' @
     ''\<newline>- Provide helpful hints if the candidate struggles (e.g., "Think about..." or "Consider...")'' @
     ''\<newline>- Break down complex topics into simpler parts'' @
     ''\<newline>- Offer encouragement and guide them toward the answer'' @
     ''\<newline>- Focus on understanding rather than speed'' @
     ''\<newline>- If they're stuck, provide a small clue before moving on''\<close>

definition advanced_guidelines :: string where
  \<open>advanced_guidelines =
     ''\<newline>Advanced-Level Guidelines:'' @
     ''\<newline>- Include system design questions and architectural discussions'' @
     ''\<newline>- Ask about edge cases, scalability, and trade-offs'' @
     ''\<newline>- Probe deeper with follow-up questions on their answers'' @
     ''\<newline>- Expect detailed explanations of time/space complexity'' @
     ''\<newline>- Discuss real-world constraints and production considerations'' @
     ''\<newline>- Challenge assumptions and explore alternative approaches'' @
     ''\<newline>- Ask about failure modes and error handling strategies''\<close>

definition intermediate_guidelines :: string where
  \<open>intermediate_guidelines =
     ''\<newline>Intermediate-Level Guidelines:'' @
     ''\<newline>- Balance theoretical knowledge with practical application'' @
     ''\<newline>- Ask about real-world experience and problem-solving approaches'' @
     ''\<newline>- Expect reasonable explanations but don't require exhaustive detail'' @
     ''\<newline>- Include some follow-up questions to test depth of knowledge''\<close>

definition coding_head :: string where
  \<open>coding_head =
     ''\<newline>Coding Interview Instructions:'' @
     ''\<newline>- Present clear coding problems with specific requirements'' @
     ''\<newline>- Ask the candidate to explain their approach before coding'' @
     ''\<newline>- Evaluate code for: correctness, efficiency, readability, and edge case handling'' @
     ''\<newline>- Ask about time and space complexity'' @
     ''\<newline>- If syntax errors are present, point them out and ask for corrections'' @
     ''\<newline>- For ''\<close>

definition coding_beginner :: string where
  \<open>coding_beginner =
     ''beginner level: use simple problems like array manipulation, string operations, or basic data structures''\<close>

definition coding_advanced :: string where
  \<open>coding_advanced =
     ''advanced level: include dynamic programming, graph algorithms, or system design coding''\<close>

definition coding_intermediate :: string where
  \<open>coding_intermediate =
     ''intermediate level: include medium complexity problems with multiple approaches''\<close>

definition behavioral_block :: string where
  \<open>behavioral_block =
     ''\<newline>Behavioral Interview Instructions:'' @
     ''\<newline>- Use the STAR method (Situation, Task, Action, Result)'' @
     ''\<newline>- Ask about past experiences, challenges, and how they handled them'' @
     ''\<newline>- Probe for specific examples, not hypotheticals'' @
     ''\<newline>- Listen for teamwork, leadership, and problem-solving skills'' @
     ''\<newline>''\<close>

definition technical_head :: string where
  \<open>technical_head =
     ''\<newline>Technical Interview Instructions:'' @
     ''\<newline>- Test deep understanding of technical concepts'' @
     ''\<newline>- Ask about architecture decisions and trade-offs'' @
     ''\<newline>- Discuss technologies, frameworks, and best practices'' @
     ''\<newline>- ''\<close>

definition technical_advanced :: string where
  \<open>technical_advanced =
     ''Include system design scenarios and scalability discussions''\<close>

definition technical_other :: string where
  \<open>technical_other =
     ''Focus on core concepts and practical application''\<close>

definition multiple_choice_block :: string where
  \<open>multiple_choice_block =
     ''\<newline>Multiple-Choice Instructions:'' @
     ''\<newline>- Present quiz-style questions with clear options (A, B, C, D)'' @
     ''\<newline>- After the candidate answers, explain why the answer is correct or incorrect'' @
     ''\<newline>- Cover a range of topics within the interview focus'' @
     ''\<newline>''\<close>

definition hr_block :: string where
  \<open>hr_block =
     ''\<newline>HR Interview Instructions:'' @
     ''\<newline>- Assess culture fit and soft skills'' @
     ''\<newline>- Ask about career goals, motivation, and values'' @
     ''\<newline>- Discuss work style, collaboration preferences, and expectations'' @
     ''\<newline>''\<close>

definition hiring_manager_block :: string where
  \<open>hiring_manager_block =
     ''\<newline>Hiring Manager Interview Instructions:'' @
     ''\<newline>- Assess leadership potential and strategic thinking'' @
     ''\<newline>- Ask about vision, decision-making, and team management'' @
     ''\<newline>- Discuss how they would approach challenges in the role'' @
     ''\<newline>''\<close>

definition hybrid_head :: string where
  \<open>hybrid_head =
     ''\<newline>Hybrid Interview Structure:'' @
     ''\<newline>This is a hybrid interview combining multiple formats. At the start, briefly explain the structure to the candidate:'' @
     ''\<newline>"This interview will cover: ''\<close>

definition hybrid_mid :: string where
  \<open>hybrid_mid =
     ''."'' @
     ''\<newline>Transition smoothly between sections with brief announcements like "Now let's move on to the ''\<close>

definition hybrid_tail :: string where
  \<open>hybrid_tail =
     ''."'' @
     ''\<newline>''\<close>

definition persona_head :: string where
  \<open>persona_head =
     ''You are an expert interviewer conducting a ''\<close>

definition persona_mid :: string where
  \<open>persona_mid =
     '' mock interview session. The difficulty level is ''\<close>

definition focus_head :: string where
  \<open>focus_head =
     ''.'' @
     ''\<newline>'' @
     ''\<newline>Interview focus areas: ''\<close>

definition core_guidelines :: string where
  \<open>core_guidelines =
     ''\<newline>Core Guidelines:'' @
     ''\<newline>- Start with a warm greeting if this is the beginning of the interview'' @
     ''\<newline>- Ask one question at a time, appropriate for the difficulty level'' @
     ''\<newline>- After each answer, acknowledge briefly (1-2 sentences max) and move to the next question'' @
     ''\<newline>- Keep questions focused and clear'' @
     ''\<newline>- Adapt your questions based on the candidate's responses'' @
     ''\<newline>- Be encouraging but realistic in your assessment'' @
     ''\<newline>''\<close>

definition selectedTypes :: "(string \<Rightarrow> string) \<Rightarrow> string list option \<Rightarrow> string" where
  "selectedTypes native interviewTypes =
     or_else
       (map_option (\<lambda>ts. join '', '' (map (\<lambda>t. or_else (record_get native typeDescriptions t) t) ts))
          interviewTypes)
       ''general technical questions''"

definition difficultyLevel :: "(string \<Rightarrow> string) \<Rightarrow> string option \<Rightarrow> string" where
  "difficultyLevel native difficulty =
     or_else (record_get native difficultyDescriptions (or_else difficulty ''intermediate''))
       ''mid-level difficulty''"

definition sessionLength :: "int option \<Rightarrow> string" where
  \<comment> \<open>\<open>duration\<close> is a number; the model covers the integers (0 is falsy).\<close>
  "sessionLength duration =
     (case duration of
        None \<Rightarrow> ''30 minute''
      | Some n \<Rightarrow> if n = 0 then ''30 minute'' else show_int n @ '' minute'')"

definition contextSection :: "string option \<Rightarrow> string" where
  "contextSection jobDescription =
     (case jobDescription of
        None \<Rightarrow> []
      | Some jd \<Rightarrow>
          if js_trim jd \<noteq> [] then ''\<newline>Job Description:\<newline>'' @ jd @ ''\<newline>'' else [])"

definition difficultyInstructions :: "string option \<Rightarrow> string" where
  \<comment> \<open>The \<open>switch\<close>: "intermediate" has no case of its own and takes the default.\<close>
  "difficultyInstructions difficulty =
     (if difficulty = Some ''beginner'' then beginner_guidelines
      else if difficulty = Some ''advanced'' then advanced_guidelines
      else intermediate_guidelines)"

definition coding_block :: "string option \<Rightarrow> string" where
  "coding_block difficulty =
     coding_head @
     (if difficulty = Some ''beginner'' then coding_beginner
      else if difficulty = Some ''advanced'' then coding_advanced
      else coding_intermediate) @ ''\<newline>''"

definition technical_block :: "string option \<Rightarrow> string" where
  "technical_block difficulty =
     technical_head @
     (if difficulty = Some ''advanced'' then technical_advanced else technical_other) @
     ''\<newline>''"

definition typeInstructions :: "string list \<Rightarrow> string option \<Rightarrow> string" where
  \<comment> \<open>The six \<open>if (types.includes(..)) typeInstructions += ..\<close> statements, in their order.\<close>
  "typeInstructions types difficulty =
     (let t0 = [];
          t1 = (if ''coding'' \<in> set types then t0 @ coding_block difficulty else t0);
          t2 = (if ''behavioral'' \<in> set types then t1 @ behavioral_block else t1);
          t3 = (if ''technical'' \<in> set types then t2 @ technical_block difficulty else t2);
          t4 = (if ''multiple-choice'' \<in> set types then t3 @ multiple_choice_block else t3);
          t5 = (if ''hr'' \<in> set types then t4 @ hr_block else t4);
          t6 = (if ''hiring-manager'' \<in> set types then t5 @ hiring_manager_block else t5)
      in t6)"

definition hybridInstructions :: "(string \<Rightarrow> string) \<Rightarrow> string list \<Rightarrow> string" where
  "hybridInstructions native types =
     (if length types > 1 then
        (let orderedTypes = map (\<lambda>t. or_else (record_get native typeLabels t) t) types
         in hybrid_head @ join '', then '' orderedTypes @ hybrid_mid @
            or_else (Some (orderedTypes ! 1)) ''next section'' @ hybrid_tail)
      else [])"

definition getSystemPrompt ::
  "(string \<Rightarrow> string) \<Rightarrow> string option \<Rightarrow> string list option \<Rightarrow> string option \<Rightarrow> int option \<Rightarrow> string" where
  "getSystemPrompt native jobDescription interviewTypes difficulty duration =
     (let types = (case interviewTypes of None \<Rightarrow> [] | Some ts \<Rightarrow> ts)
      in persona_head @ sessionLength duration @ persona_mid @
         difficultyLevel native difficulty @ focus_head @
         selectedTypes native interviewTypes @ ''\<newline>'' @
         contextSection jobDescription @ core_guidelines @
         difficultyInstructions difficulty @ ''\<newline>'' @
         typeInstructions types difficulty @ ''\<newline>'' @
         hybridInstructions native types)"



definition v8_native :: "string \<Rightarrow> string" where
  \<comment> \<open>What Node prints for the members of \<open>Object.prototype\<close>.\<close>
  "v8_native k =
     (if k = ''__proto__'' then ''[object Object]''
      else if k = ''constructor'' then ''function Object() { [native code] }''
      else ''function '' @ k @ ''() { [native code] }'')"


definition prompt_tail :: "(string \<Rightarrow> string) \<Rightarrow> string option \<Rightarrow> string list option \<Rightarrow> string option \<Rightarrow> string" where
  \<comment> \<open>Everything \<open>getSystemPrompt\<close> writes after the difficulty label of its first line.\<close>
  "prompt_tail native jobDescription interviewTypes difficulty =
     (let types = (case interviewTypes of None \<Rightarrow> [] | Some ts \<Rightarrow> ts)
      in focus_head @
         selectedTypes native interviewTypes @ ''\<newline>'' @
         contextSection jobDescription @ core_guidelines @
         difficultyInstructions difficulty @ ''\<newline>'' @
         typeInstructions types difficulty @ ''\<newline>'' @
         hybridInstructions native types)"

subsection \<open>JSON values as the stream decoders see them\<close>

text \<open>
  The value \<open>JSON.parse\<close> returns. Numbers are modelled where they are integers.
  \<open>JSON.parse\<close> belongs to the runtime, not to the route: the decoders take it as the
  parameter \<open>parse\<close>, where \<open>None\<close> stands for the \<open>SyntaxError\<close> it throws.
\<close>

datatype json =
    JNull
  | JBool bool
  | JNumber int
  | JString string
  | JArray "json list"
  | JObject "(string \<times> json) list"

datatype js_exn = SyntaxError | TypeError

type_synonym json_parse = "string \<Rightarrow> json option"

definition own_property :: "(string \<times> json) list \<Rightarrow> string \<Rightarrow> json option" where
  \<comment> \<open>Of a repeated key the last occurrence counts.\<close>
  "own_property kvs k = map_of (rev kvs) k"

definition get_prop :: "json \<Rightarrow> string \<Rightarrow> js_exn + json option" where
  \<comment> \<open>\<open>v.k\<close> for the keys the route reads (choices, delta, content, text, type): reading
      a property of \<open>null\<close> throws, other primitives and arrays have no such member.\<close>
  "get_prop v k =
     (case v of
        JNull \<Rightarrow> Inl TypeError
      | JObject kvs \<Rightarrow> Inr (own_property kvs k)
      | _ \<Rightarrow> Inr None)"

definition opt_prop :: "json option \<Rightarrow> string \<Rightarrow> json option" where
  \<comment> \<open>\<open>v?.k\<close>: \<open>undefined\<close> when \<open>v\<close> is \<open>undefined\<close> or \<open>null\<close>.\<close>
  "opt_prop v k =
     (case v of
        Some (JObject kvs) \<Rightarrow> own_property kvs k
      | _ \<Rightarrow> None)"

definition opt_index0 :: "json option \<Rightarrow> json option" where
  \<comment> \<open>\<open>v?.[0]\<close>: the first element of an array, the first character of a string, the
      member "0" of an object.\<close>
  "opt_index0 v =
     (case v of
        Some (JArray xs) \<Rightarrow> (case xs of [] \<Rightarrow> None | x # _ \<Rightarrow> Some x)
      | Some (JString s) \<Rightarrow> (case s of [] \<Rightarrow> None | c # _ \<Rightarrow> Some (JString [c]))
      | Some (JObject kvs) \<Rightarrow> own_property kvs ''0''
      | _ \<Rightarrow> None)"

definition truthy :: "json option \<Rightarrow> bool" where
  "truthy v =
     (case v of
        None \<Rightarrow> False
      | Some JNull \<Rightarrow> False
      | Some (JBool b) \<Rightarrow> b
      | Some (JNumber n) \<Rightarrow> n \<noteq> 0
      | Some (JString s) \<Rightarrow> s \<noteq> []
      | Some _ \<Rightarrow> True)"

fun js_ToString :: "json \<Rightarrow> string option" where
  \<comment> \<open>The conversion \<open>encoder.encode\<close> applies to its argument; \<open>None\<close> is the
      \<open>TypeError\<close> of an object whose own member shadows \<open>toString\<close>.\<close>
  "js_ToString JNull = Some ''null''"
| "js_ToString (JBool b) = Some (if b then ''true'' else ''false'')"
| "js_ToString (JNumber n) = Some (show_int n)"
| "js_ToString (JString s) = Some s"
| "js_ToString (JArray xs) =
     map_option (join '','')
       (those (map (\<lambda>x. if x = JNull then Some [] else js_ToString x) xs))"
| "js_ToString (JObject kvs) =
     (if ''toString'' \<in> fst ` set kvs then None else Some ''[object Object]'')"

definition enqueue_content :: "json option \<Rightarrow> js_exn + string list" where
  \<comment> \<open>\<open>if (content) controller.enqueue(encoder.encode(content))\<close>: the chunks enqueued.\<close>
  "enqueue_content content =
     (case content of
        None \<Rightarrow> Inr []
      | Some v \<Rightarrow>
          if truthy (Some v)
          then (case js_ToString v of None \<Rightarrow> Inl TypeError | Some s \<Rightarrow> Inr [s])
          else Inr [])"

definition catch_ignore :: "js_exn + string list \<Rightarrow> string list" where
  \<comment> \<open>\<open>try { ... } catch { }\<close> around a block that enqueues as its last step.\<close>
  "catch_ignore r = (case r of Inl e \<Rightarrow> [] | Inr out \<Rightarrow> out)"

definition chunk_lines :: "string \<Rightarrow> string list" where
  \<comment> \<open>\<open>text.split("\n").filter((line) => line.trim() !== "")\<close>; a chunk is modelled
      by its text, \<open>decoder.decode\<close> being the identity on a chunk that is a whole
      UTF-8 sequence (a leading byte-order mark aside).\<close>
  "chunk_lines text = filter (\<lambda>line. js_trim line \<noteq> []) (split_nl text)"

subsection \<open>The three stream transforms\<close>

definition openai_try :: "json_parse \<Rightarrow> string \<Rightarrow> js_exn + string list" where
  "openai_try parse data =
     (case parse data of
        None \<Rightarrow> Inl SyntaxError
      | Some parsed \<Rightarrow>
          (case get_prop parsed ''choices'' of
             Inl e \<Rightarrow> Inl e
           | Inr choices \<Rightarrow>
               enqueue_content (opt_prop (opt_prop (opt_index0 choices) ''delta'') ''content'')))"

fun openai_loop :: "json_parse \<Rightarrow> string list \<Rightarrow> string list" where
  \<comment> \<open>The \<open>for\<close> loop; \<open>return\<close> at the sentinel leaves the loop and the call.\<close>
  "openai_loop parse [] = []"
| "openai_loop parse (line # rest) =
     (if startsWith line ''data: '' then
        (let data = drop 6 line
         in if data = ''[DONE]'' then []
            else catch_ignore (openai_try parse data) @ openai_loop parse rest)
      else openai_loop parse rest)"

definition streamOpenAI_transform :: "json_parse \<Rightarrow> string \<Rightarrow> string list" where
  "streamOpenAI_transform parse chunk = openai_loop parse (chunk_lines chunk)"

definition anthropic_try :: "json_parse \<Rightarrow> string \<Rightarrow> js_exn + string list" where
  "anthropic_try parse data =
     (case parse data of
        None \<Rightarrow> Inl SyntaxError
      | Some parsed \<Rightarrow>
          (case get_prop parsed ''type'' of
             Inl e \<Rightarrow> Inl e
           | Inr ty \<Rightarrow>
               if ty = Some (JString ''content_block_delta'') then
                 (case get_prop parsed ''delta'' of
                    Inl e \<Rightarrow> Inl e
                  | Inr delta \<Rightarrow> enqueue_content (opt_prop delta ''text''))
               else Inr []))"

fun anthropic_loop :: "json_parse \<Rightarrow> string list \<Rightarrow> string list" where
  "anthropic_loop parse [] = []"
| "anthropic_loop parse (line # rest) =
     (if startsWith line ''data: '' then
        (let data = drop 6 line
         in catch_ignore (anthropic_try parse data) @ anthropic_loop parse rest)
      else anthropic_loop parse rest)"

definition streamAnthropic_transform :: "json_parse \<Rightarrow> string \<Rightarrow> string list" where
  "streamAnthropic_transform parse chunk = anthropic_loop parse (chunk_lines chunk)"

definition ollama_try :: "json_parse \<Rightarrow> string \<Rightarrow> js_exn + string list" where
  "ollama_try parse line =
     (case parse line of
        None \<Rightarrow> Inl SyntaxError
      | Some parsed \<Rightarrow>
          (case get_prop parsed ''choices'' of
             Inl e \<Rightarrow> Inl e
           | Inr choices \<Rightarrow> enqueue_content (opt_prop (opt_index0 choices) ''text'')))"

fun ollama_loop :: "json_parse \<Rightarrow> string list \<Rightarrow> string list" where
  "ollama_loop parse [] = []"
| "ollama_loop parse (line # rest) =
     catch_ignore (ollama_try parse line) @ ollama_loop parse rest"

definition streamOllama_transform :: "json_parse \<Rightarrow> string \<Rightarrow> string list" where
  "streamOllama_transform parse chunk = ollama_loop parse (chunk_lines chunk)"

definition pipeThrough :: "(string \<Rightarrow> string list) \<Rightarrow> string list \<Rightarrow> string list" where
  \<comment> \<open>\<open>response.body.pipeThrough(transformStream)\<close>: the transform runs once per upstream
      chunk, in order of arrival, and keeps no state between the calls; the result lists
      the chunks enqueued, in order of emission.\<close>
  "pipeThrough transform body = concat (map transform body)"

subsection \<open>Wire formats, frames and the text they carry\<close>

datatype wire_format = OpenAI_SSE | Anthropic_SSE | Ollama_NDJSON

definition transform_of :: "wire_format \<Rightarrow> json_parse \<Rightarrow> string \<Rightarrow> string list" where
  "transform_of fmt parse =
     (case fmt of
        OpenAI_SSE \<Rightarrow> streamOpenAI_transform parse
      | Anthropic_SSE \<Rightarrow> streamAnthropic_transform parse
      | Ollama_NDJSON \<Rightarrow> streamOllama_transform parse)"

definition line_out :: "wire_format \<Rightarrow> json_parse \<Rightarrow> string \<Rightarrow> string list" where
  \<comment> \<open>What one pass of a transform's loop body enqueues for a line other than the
      OpenAI sentinel.\<close>
  "line_out fmt parse line =
     (case fmt of
        OpenAI_SSE \<Rightarrow>
          if startsWith line ''data: '' then catch_ignore (openai_try parse (drop 6 line)) else []
      | Anthropic_SSE \<Rightarrow>
          if startsWith line ''data: '' then catch_ignore (anthropic_try parse (drop 6 line)) else []
      | Ollama_NDJSON \<Rightarrow> catch_ignore (ollama_try parse line))"

text \<open>
  The reading of the specification. A frame is one line of the body: for the two
  server-sent-event formats a \<open>data: \<close> line (the OpenAI sentinel is not a frame), for
  the newline-delimited format any line that is not blank. Its payload is JSON; the text
  it carries is the string in the content field of the format, and a frame without that
  field (or, for Anthropic, an event of another type) carries the empty text.
\<close>

definition frame_payload :: "wire_format \<Rightarrow> string \<Rightarrow> string option" where
  "frame_payload fmt line =
     (case fmt of
        OpenAI_SSE \<Rightarrow>
          if startsWith line ''data: '' \<and> drop 6 line \<noteq> ''[DONE]'' then Some (drop 6 line) else None
      | Anthropic_SSE \<Rightarrow> if startsWith line ''data: '' then Some (drop 6 line) else None
      | Ollama_NDJSON \<Rightarrow> if js_trim line \<noteq> [] then Some line else None)"

definition text_field :: "json option \<Rightarrow> string option" where
  "text_field v =
     (case v of
        None \<Rightarrow> Some []
      | Some JNull \<Rightarrow> Some []
      | Some (JString t) \<Rightarrow> Some t
      | Some _ \<Rightarrow> None)"

definition first_choice :: "json \<Rightarrow> (string \<times> json) list option" where
  \<comment> \<open>The object \<open>choices[0]\<close> of a completion frame.\<close>
  "first_choice j =
     (case j of
        JObject kvs \<Rightarrow>
          (case own_property kvs ''choices'' of
             Some (JArray (JObject c # cs)) \<Rightarrow> Some c
           | _ \<Rightarrow> None)
      | _ \<Rightarrow> None)"

definition frame_text :: "wire_format \<Rightarrow> json \<Rightarrow> string option" where
  \<comment> \<open>The text a decoded frame carries; \<open>None\<close> when it is not a frame of the format.\<close>
  "frame_text fmt j =
     (case fmt of
        OpenAI_SSE \<Rightarrow>
          (case first_choice j of
             Some c \<Rightarrow>
               (case own_property c ''delta'' of
                  Some (JObject d) \<Rightarrow> text_field (own_property d ''content'')
                | _ \<Rightarrow> None)
           | None \<Rightarrow> None)
      | Anthropic_SSE \<Rightarrow>
          (case j of
             JObject kvs \<Rightarrow>
               (case own_property kvs ''type'' of
                  Some (JString ty) \<Rightarrow>
                    if ty = ''content_block_delta'' then
                      (case own_property kvs ''delta'' of
                         Some (JObject d) \<Rightarrow> text_field (own_property d ''text'')
                       | _ \<Rightarrow> None)
                    else Some []
                | _ \<Rightarrow> None)
           | _ \<Rightarrow> None)
      | Ollama_NDJSON \<Rightarrow>
          (case first_choice j of
             Some c \<Rightarrow> text_field (own_property c ''text'')
           | None \<Rightarrow> None))"

definition decoded_text :: "wire_format \<Rightarrow> json_parse \<Rightarrow> string \<Rightarrow> string option" where
  \<comment> \<open>The text carried by a line that is a well-formed frame; \<open>None\<close> for any other line.\<close>
  "decoded_text fmt parse line =
     (case frame_payload fmt line of
        None \<Rightarrow> None
      | Some p \<Rightarrow> (case parse p of None \<Rightarrow> None | Some j \<Rightarrow> frame_text fmt j))"

definition well_formed_frame :: "wire_format \<Rightarrow> json_parse \<Rightarrow> string \<Rightarrow> bool" where
  "well_formed_frame fmt parse line = (decoded_text fmt parse line \<noteq> None)"

definition malformed_frame :: "wire_format \<Rightarrow> json_parse \<Rightarrow> string \<Rightarrow> bool" where
  \<comment> \<open>A frame line whose payload \<open>JSON.parse\<close> rejects.\<close>
  "malformed_frame fmt parse line =
     (case frame_payload fmt line of None \<Rightarrow> False | Some p \<Rightarrow> parse p = None)"

definition silent_line :: "wire_format \<Rightarrow> string \<Rightarrow> bool" where
  \<comment> \<open>A line that is no frame: a blank line, and in the event formats any line that is
      not a \<open>data: \<close> line (\<open>event: ...\<close>, comments).\<close>
  "silent_line fmt line =
     (case fmt of
        Ollama_NDJSON \<Rightarrow> js_trim line = []
      | _ \<Rightarrow> \<not> startsWith line ''data: '')"

definition line_text :: "wire_format \<Rightarrow> json_parse \<Rightarrow> string \<Rightarrow> string" where
  "line_text fmt parse line = (case decoded_text fmt parse line of None \<Rightarrow> [] | Some t \<Rightarrow> t)"

definition frame_chunk :: "string list \<Rightarrow> string" where
  \<comment> \<open>An upstream chunk made of whole lines, each ended by its line feed.\<close>
  "frame_chunk ls = concat (map (\<lambda>l. l @ ''\<newline>'') ls)"

subsection \<open>A JSON reader for the fixtures\<close>

text \<open>
  The fragment of JSON the fixtures of this theory are written in: objects, arrays, strings
  with the two-character escapes, integers and the three literals, with blanks between
  tokens. On a text of the fragment \<open>json_reader\<close> returns the value \<open>JSON.parse\<close>
  returns; it answers \<open>None\<close> on every other text and is therefore applied only to texts
  of the fragment and to texts that are not JSON at all.
\<close>

definition json_blank :: "char \<Rightarrow> bool" where
  "json_blank c = (c \<in> set [CHR 0x20, CHR 0x09, CHR 0x0A, CHR 0x0D])"

definition skip_blanks :: "string \<Rightarrow> string" where
  "skip_blanks s = dropWhile json_blank s"

definition is_digit :: "char \<Rightarrow> bool" where
  "is_digit c = ((48 :: nat) \<le> of_char c \<and> of_char c \<le> (57 :: nat))"

fun read_chars :: "string \<Rightarrow> (string \<times> string) option" where
  \<comment> \<open>The characters of a string literal after its opening quote, and the rest.\<close>
  "read_chars [] = None"
| "read_chars [c] = (if c = CHR 0x22 then Some ([], []) else None)"
| "read_chars (c # e # cs) =
     (if c = CHR 0x22 then Some ([], e # cs)
      else if c = CHR 0x5C then
        (let r = (if e = CHR 0x22 then Some (CHR 0x22)
                  else if e = CHR 0x5C then Some (CHR 0x5C)
                  else if e = CHR ''/'' then Some (CHR ''/'')
                  else if e = CHR ''b'' then Some (CHR 0x08)
                  else if e = CHR ''f'' then Some (CHR 0x0C)
                  else if e = CHR ''n'' then Some (CHR 0x0A)
                  else if e = CHR ''r'' then Some (CHR 0x0D)
                  else if e = CHR ''t'' then Some (CHR 0x09)
                  else None)
         in case r of
              None \<Rightarrow> None
            | Some x \<Rightarrow> map_option (\<lambda>(t, rest). (x # t, rest)) (read_chars cs))
      else if of_char c < (32 :: nat) then None
      else map_option (\<lambda>(t, rest). (c # t, rest)) (read_chars (e # cs)))"

definition digits_value :: "string \<Rightarrow> int" where
  "digits_value ds = foldl (\<lambda>n c. 10 * n + (of_char c - 48)) 0 ds"

definition read_number :: "string \<Rightarrow> (json \<times> string) option" where
  \<comment> \<open>An integer literal; a fraction or an exponent is outside the fragment.\<close>
  "read_number s =
     (let neg = (s \<noteq> [] \<and> hd s = CHR ''-'');
          body = (if neg then tl s else s);
          ds = takeWhile is_digit body;
          rest = dropWhile is_digit body
      in if ds = [] \<or> (length ds > 1 \<and> hd ds = CHR ''0'') then None
         else if rest \<noteq> [] \<and> hd rest \<in> set [CHR ''.'', CHR ''e'', CHR ''E''] then None
         else Some (JNumber (if neg then - digits_value ds else digits_value ds), rest))"

fun read_value :: "nat \<Rightarrow> string \<Rightarrow> (json \<times> string) option"
  and read_elements :: "nat \<Rightarrow> string \<Rightarrow> (json list \<times> string) option"
  and read_members :: "nat \<Rightarrow> string \<Rightarrow> ((string \<times> json) list \<times> string) option" where
  "read_value 0 s = None"
| "read_value (Suc n) s =
     (case skip_blanks s of
        [] \<Rightarrow> None
      | c # cs \<Rightarrow>
          if c = CHR ''{'' then
            (case skip_blanks cs of
               [] \<Rightarrow> None
             | d # ds \<Rightarrow>
                 if d = CHR ''}'' then Some (JObject [], ds)
                 else map_option (\<lambda>(m, r). (JObject m, r)) (read_members n (d # ds)))
          else if c = CHR ''['' then
            (case skip_blanks cs of
               [] \<Rightarrow> None
             | d # ds \<Rightarrow>
                 if d = CHR '']'' then Some (JArray [], ds)
                 else map_option (\<lambda>(vs, r). (JArray vs, r)) (read_elements n (d # ds)))
          else if c = CHR 0x22 then map_option (\<lambda>(t, r). (JString t, r)) (read_chars cs)
          else if take 4 (c # cs) = ''true'' then Some (JBool True, drop 4 (c # cs))
          else if take 5 (c # cs) = ''false'' then Some (JBool False, drop 5 (c # cs))
          else if take 4 (c # cs) = ''null'' then Some (JNull, drop 4 (c # cs))
          else read_number (c # cs))"
| "read_elements 0 s = None"
| "read_elements (Suc n) s =
     (case read_value n s of
        None \<Rightarrow> None
      | Some (v, r) \<Rightarrow>
          (case skip_blanks r of
             [] \<Rightarrow> None
           | c # cs \<Rightarrow>
               if c = CHR '','' then map_option (\<lambda>(vs, r'). (v # vs, r')) (read_elements n cs)
               else if c = CHR '']'' then Some ([v], cs)
               else None))"
| "read_members 0 s = None"
| "read_members (Suc n) s =
     (case skip_blanks s of
        [] \<Rightarrow> None
      | q # ks \<Rightarrow>
          if q \<noteq> CHR 0x22 then None
          else
            (case read_chars ks of
               None \<Rightarrow> None
             | Some (k, r) \<Rightarrow>
                 (case skip_blanks r of
                    [] \<Rightarrow> None
                  | c # cs \<Rightarrow>
                      if c \<noteq> CHR '':'' then None
                      else
                        (case read_value n cs of
                           None \<Rightarrow> None
                         | Some (v, r') \<Rightarrow>
                             (case skip_blanks r' of
                                [] \<Rightarrow> None
                              | e # es \<Rightarrow>
                                  if e = CHR '','' then
                                    map_option (\<lambda>(m, r''). ((k, v) # m, r'')) (read_members n es)
                                  else if e = CHR ''}'' then Some ([(k, v)], es)
                                  else None)))))"

definition json_reader :: json_parse where
  "json_reader s =
     (case read_value (Suc (length s)) s of
        None \<Rightarrow> None
      | Some (v, r) \<Rightarrow> if skip_blanks r = [] then Some v else None)"

subsection \<open>Messages and the payloads of the wire adapters\<close>

datatype role = System | User | Assistant

record message =
  role :: role
  content :: string

definition env_text :: "env \<Rightarrow> string \<Rightarrow> string" where
  \<comment> \<open>\<open>`${process.env.X}`\<close>.\<close>
  "env_text env k = (case env k of None \<Rightarrow> ''undefined'' | Some s \<Rightarrow> s)"

record openai_body =
  oa_model :: string
  oa_messages :: "message list"
  oa_stream :: bool
  oa_temperature :: rat
  oa_max_tokens :: nat

record anthropic_body =
  an_model :: string
  an_max_tokens :: nat
  an_system :: string
  an_messages :: "message list"
  an_stream :: bool

record ollama_body =
  ol_model :: string
  ol_prompt :: string
  ol_max_tokens :: nat
  ol_temperature :: rat
  ol_stream :: bool

record huggingface_body =
  hf_inputs :: string
  hf_max_new_tokens :: nat
  hf_temperature :: rat
  hf_return_full_text :: bool

datatype upstream_body =
    OpenAI_body openai_body
  | Anthropic_body anthropic_body
  | Ollama_body ollama_body
  | HuggingFace_body huggingface_body

record http_request =
  req_url :: string
  req_headers :: "(string \<times> string) list"
  req_body :: upstream_body

definition build_openai_body :: "env \<Rightarrow> message list \<Rightarrow> string \<Rightarrow> openai_body" where
  \<comment> \<open>The object \<open>streamOpenAI\<close> passes to \<open>JSON.stringify\<close>.\<close>
  "build_openai_body env messages systemPrompt =
     \<lparr> oa_model = or_else (env ''OPENAI_MODEL'') ''gpt-4o-mini'',
       oa_messages = \<lparr> role = System, content = systemPrompt \<rparr> # messages,
       oa_stream = True,
       oa_temperature = 7 / 10,
       oa_max_tokens = 1024 \<rparr>"

definition anthropicMessages :: "message list \<Rightarrow> message list" where
  "anthropicMessages messages =
     map (\<lambda>msg. \<lparr> role = (if role msg = Assistant then Assistant else User),
                  content = content msg \<rparr>) messages"

definition build_anthropic_body :: "env \<Rightarrow> message list \<Rightarrow> string \<Rightarrow> anthropic_body" where
  "build_anthropic_body env messages systemPrompt =
     \<lparr> an_model = or_else (env ''ANTHROPIC_MODEL'') ''claude-3-haiku-20240307'',
       an_max_tokens = 1024,
       an_system = systemPrompt,
       an_messages = anthropicMessages messages,
       an_stream = True \<rparr>"

definition ollama_prompt :: "message list \<Rightarrow> string \<Rightarrow> string" where
  "ollama_prompt messages systemPrompt =
     join ''\<newline>''
       ((''System: '' @ systemPrompt) #
        map (\<lambda>m. (if role m = User then ''User'' else ''Assistant'') @ '': '' @ content m) messages)"

definition build_ollama_body :: "env \<Rightarrow> message list \<Rightarrow> string \<Rightarrow> ollama_body" where
  "build_ollama_body env messages systemPrompt =
     \<lparr> ol_model = or_else (env ''OLLAMA_MODEL'') ''llama3.2:latest'',
       ol_prompt = ollama_prompt messages systemPrompt,
       ol_max_tokens = 1024,
       ol_temperature = 7 / 10,
       ol_stream = True \<rparr>"

fun format_loop :: "message list \<Rightarrow> string" where
  \<comment> \<open>The \<open>forEach\<close> of \<open>formatMessagesAsPrompt\<close>; \<open>i < messages.length - 1\<close> holds when
      messages follow.\<close>
  "format_loop [] = []"
| "format_loop (msg # rest) =
     (if role msg = User then ''[INST] '' @ content msg @ '' [/INST]''
      else if role msg = Assistant then
        '' '' @ content msg @ ''</s>'' @ (if rest \<noteq> [] then ''<s>'' else [])
      else []) @ format_loop rest"

definition formatMessagesAsPrompt :: "message list \<Rightarrow> string \<Rightarrow> string" where
  "formatMessagesAsPrompt messages systemPrompt =
     ''<s>[INST] '' @ systemPrompt @ ''\<newline>\<newline>'' @ format_loop messages"

definition build_huggingface_body :: "message list \<Rightarrow> string \<Rightarrow> huggingface_body" where
  "build_huggingface_body messages systemPrompt =
     \<lparr> hf_inputs = formatMessagesAsPrompt messages systemPrompt,
       hf_max_new_tokens = 1024,
       hf_temperature = 7 / 10,
       hf_return_full_text = False \<rparr>"





subsection \<open>The adapters and the dispatcher \<open>POST\<close>\<close>

text \<open>
  The network is the parameter \<open>fetch\<close>: it answers a request with a rejection or with a
  status and the chunks of a body. Texts the route writes itself are kept apart from the
  messages the engine words (a rejected \<open>fetch\<close>, a \<open>SyntaxError\<close>, a \<open>TypeError\<close>), whose
  wording the model leaves open. Every adapter returns what it returns or throws, and the
  upstream calls it made.
\<close>

datatype engine_fault = FetchRejected | JsonSyntaxError | NullTypeError

datatype error_text = Text string | EngineText engine_fault

datatype fetch_result = Rejected | Responded nat "string list"

datatype response =
    NextResponse_json error_text nat
  | Response "string list" "(string \<times> string) list"

record runtime =
  native_text :: "string \<Rightarrow> string"
  JSON_parse :: json_parse
  fetch :: "http_request \<Rightarrow> fetch_result"

definition response_ok :: "nat \<Rightarrow> bool" where
  "response_ok st = (200 \<le> st \<and> st \<le> 299)"

definition stream_headers :: "(string \<times> string) list" where
  "stream_headers =
     [(''Content-Type'', ''text/plain; charset=utf-8''),
      (''Transfer-Encoding'', ''chunked''),
      (''Cache-Control'', ''no-cache'')]"

definition upstream_call ::
  "runtime \<Rightarrow> http_request \<Rightarrow> string \<Rightarrow> (string list \<Rightarrow> error_text + response)
     \<Rightarrow> (error_text + response) \<times> http_request list" where
  \<comment> \<open>\<open>await fetch(..)\<close>, the \<open>if (!response.ok) throw new Error(..)\<close> that follows it in
      each adapter, and the adapter's use of the body.\<close>
  "upstream_call rt req name use_body =
     ((case fetch rt req of
         Rejected \<Rightarrow> Inl (EngineText FetchRejected)
       | Responded st chunks \<Rightarrow>
           if \<not> response_ok st
           then Inl (Text (name @ '' API error: '' @ show_nat st @ '' - '' @ concat chunks))
           else use_body chunks),
      [req])"

definition streamOpenAI ::
  "runtime \<Rightarrow> env \<Rightarrow> message list \<Rightarrow> string \<Rightarrow> (error_text + response) \<times> http_request list" where
  "streamOpenAI rt env messages systemPrompt =
     upstream_call rt
       \<lparr> req_url = ''https://api.openai.com/v1/chat/completions'',
         req_headers =
           [(''Content-Type'', ''application/json''),
            (''Authorization'', ''Bearer '' @ env_text env ''OPENAI_API_KEY'')],
         req_body = OpenAI_body (build_openai_body env messages systemPrompt) \<rparr>
       ''OpenAI''
       (\<lambda>chunks. Inr (Response (pipeThrough (streamOpenAI_transform (JSON_parse rt)) chunks)
                      stream_headers))"

definition streamAnthropic ::
  "runtime \<Rightarrow> env \<Rightarrow> message list \<Rightarrow> string \<Rightarrow> (error_text + response) \<times> http_request list" where
  "streamAnthropic rt env messages systemPrompt =
     upstream_call rt
       \<lparr> req_url = ''https://api.anthropic.com/v1/messages'',
         req_headers =
           [(''Content-Type'', ''application/json''),
            (''x-api-key'', env_text env ''ANTHROPIC_API_KEY''),
            (''anthropic-version'', ''2023-06-01'')],
         req_body = Anthropic_body (build_anthropic_body env messages systemPrompt) \<rparr>
       ''Anthropic''
       (\<lambda>chunks. Inr (Response (pipeThrough (streamAnthropic_transform (JSON_parse rt)) chunks)
                      stream_headers))"

definition streamOllama ::
  "runtime \<Rightarrow> env \<Rightarrow> message list \<Rightarrow> string \<Rightarrow> (error_text + response) \<times> http_request list" where
  "streamOllama rt env messages systemPrompt =
     upstream_call rt
       \<lparr> req_url = or_else (env ''OLLAMA_API_URL'') ''http://localhost:11434/v1/completions'',
         req_headers =
           (''Content-Type'', ''application/json'') #
           (if truthy_str (env ''OLLAMA_API_KEY'')
            then [(''Authorization'', ''Bearer '' @ env_text env ''OLLAMA_API_KEY'')] else []),
         req_body = Ollama_body (build_ollama_body env messages systemPrompt) \<rparr>
       ''Ollama''
       (\<lambda>chunks. Inr (Response (pipeThrough (streamOllama_transform (JSON_parse rt)) chunks)
                      stream_headers))"

definition generated_text :: "json \<Rightarrow> error_text + json option" where
  \<comment> \<open>\<open>Array.isArray(result) ? result[0].generated_text : result.generated_text\<close>.\<close>
  "generated_text result =
     (let holder = (case result of
                      JArray xs \<Rightarrow> (case xs of [] \<Rightarrow> None | x # _ \<Rightarrow> Some x)
                    | _ \<Rightarrow> Some result)
      in case holder of
           None \<Rightarrow> Inl (EngineText NullTypeError)
         | Some h \<Rightarrow>
             (case get_prop h ''generated_text'' of
                Inl e \<Rightarrow> Inl (EngineText NullTypeError)
              | Inr v \<Rightarrow> Inr v))"

definition callHuggingFace ::
  "runtime \<Rightarrow> env \<Rightarrow> message list \<Rightarrow> string \<Rightarrow> (error_text + response) \<times> http_request list" where
  "callHuggingFace rt env messages systemPrompt =
     upstream_call rt
       \<lparr> req_url = ''https://router.huggingface.co/hf-inference/models/'' @
           or_else (env ''HUGGINGFACE_MODEL'') ''mistralai/Mixtral-8x7B-Instruct-v0.1'',
         req_headers =
           [(''Authorization'', ''Bearer '' @ env_text env ''HUGGINGFACE_API_KEY''),
            (''Content-Type'', ''application/json'')],
         req_body = HuggingFace_body (build_huggingface_body messages systemPrompt) \<rparr>
       ''Hugging Face''
       (\<lambda>chunks.
          case JSON_parse rt (concat chunks) of
            None \<Rightarrow> Inl (EngineText JsonSyntaxError)
          | Some result \<Rightarrow>
              (case generated_text result of
                 Inl e \<Rightarrow> Inl e
               | Inr generatedText \<Rightarrow>
                   (let headers = [(''Content-Type'', ''text/plain; charset=utf-8''),
                                   (''Cache-Control'', ''no-cache'')]
                    in case generatedText of
                         None \<Rightarrow> Inr (Response [] headers)
                       | Some JNull \<Rightarrow> Inr (Response [] headers)
                       | Some v \<Rightarrow>
                           (case js_ToString v of
                              None \<Rightarrow> Inl (EngineText NullTypeError)
                            | Some t \<Rightarrow> Inr (Response [t] headers)))))"

datatype messages_field = Absent | NotArray | Messages "message list"

datatype chat_request =
  ChatRequest messages_field "string option" "string list option" "string option" "int option"
  \<comment> \<open>messages, jobDescription, interviewTypes, difficulty, duration: the interface
      \<open>ChatRequest\<close>, each optional field of its declared type or absent.\<close>

datatype request_json = InvalidJSON | JsonNull | JsonBody chat_request
  \<comment> \<open>What \<open>await request.json()\<close> meets: a body that is not JSON, the body \<open>null\<close>
      (destructuring it throws), anything else.\<close>

definition no_keys_text :: string where
  "no_keys_text =
     ''No API keys configured. Set OPENAI_API_KEY, ANTHROPIC_API_KEY, or HUGGINGFACE_API_KEY''"

definition POST :: "runtime \<Rightarrow> env \<Rightarrow> request_json \<Rightarrow> response \<times> http_request list" where
  \<comment> \<open>The response and the upstream calls made for it; whatever is thrown inside the
      \<open>try\<close> becomes the 500 of the \<open>catch\<close>.\<close>
  "POST rt env request =
     (case request of
        InvalidJSON \<Rightarrow> (NextResponse_json (EngineText JsonSyntaxError) 500, [])
      | JsonNull \<Rightarrow> (NextResponse_json (EngineText NullTypeError) 500, [])
      | JsonBody (ChatRequest msgs jobDescription interviewTypes difficulty duration) \<Rightarrow>
          (case msgs of
             Absent \<Rightarrow> (NextResponse_json (Text ''messages array is required'') 400, [])
           | NotArray \<Rightarrow> (NextResponse_json (Text ''messages array is required'') 400, [])
           | Messages messages \<Rightarrow>
               (case detectProvider env of
                  None \<Rightarrow> (NextResponse_json (Text no_keys_text) 500, [])
                | Some active \<Rightarrow>
                    (let systemPrompt =
                           getSystemPrompt (native_text rt) jobDescription interviewTypes
                             difficulty duration;
                         (outcome, calls) =
                           (case active of
                              OpenAI \<Rightarrow> streamOpenAI rt env messages systemPrompt
                            | Anthropic \<Rightarrow> streamAnthropic rt env messages systemPrompt
                            | Ollama \<Rightarrow> streamOllama rt env messages systemPrompt
                            | HuggingFace \<Rightarrow> callHuggingFace rt env messages systemPrompt)
                     in (case outcome of
                           Inl e \<Rightarrow> NextResponse_json e 500
                         | Inr r \<Rightarrow> r,
                         calls)))))"

text \<open>Two auxiliary notions for the statements about \<open>POST\<close>.\<close>

definition dispatch ::
  "runtime \<Rightarrow> env \<Rightarrow> provider \<Rightarrow> message list \<Rightarrow> string
     \<Rightarrow> (error_text + response) \<times> http_request list" where
  \<comment> \<open>The \<open>switch (provider)\<close> of \<open>POST\<close> on its own.\<close>
  "dispatch rt env p ms sp =
     (case p of
        OpenAI \<Rightarrow> streamOpenAI rt env ms sp
      | Anthropic \<Rightarrow> streamAnthropic rt env ms sp
      | Ollama \<Rightarrow> streamOllama rt env ms sp
      | HuggingFace \<Rightarrow> callHuggingFace rt env ms sp)"

definition no_keys_outcome :: "error_text + response \<Rightarrow> bool" where
  \<comment> \<open>An adapter outcome that would surface as the configuration error.\<close>
  "no_keys_outcome out =
     (out = Inl (Text no_keys_text) \<or> out = Inr (NextResponse_json (Text no_keys_text) 500))"

definition fixture_runtime :: runtime where
  \<comment> \<open>A runtime for the fixtures: every upstream call is answered with status 200 and a
      two-chunk OpenAI body.\<close>
  \<open>fixture_runtime =
     \<lparr> native_text = v8_native,
       JSON_parse = json_reader,
       fetch = (\<lambda>req. Responded 200
         [''data: {"choices":[{"delta":{"content":"Hi"}}]}\<newline>\<newline>'',
          ''data: [DONE]\<newline>\<newline>'']) \<rparr>\<close>

section \<open>Provider precedence\<close>

lemma truthy_str_simps:
  "truthy_str None = False" "truthy_str (Some s) = (s \<noteq> [])"
  by (simp_all add: truthy_str_def)

lemma empty_credential_is_absent:
  "\<not> present (map_of [(''OPENAI_API_KEY'', [])]) ''OPENAI_API_KEY''"
  "detectProvider (map_of [(''OPENAI_API_KEY'', [])]) = None"
  by (simp_all add: present_def detectProvider_def truthy_str_simps)

text \<open>
  Claim C1. For every snapshot of the credential variables \<open>detectProvider\<close> follows the
  precedence openai > anthropic > ollama > huggingface: it answers openai whenever
  \<open>OPENAI_API_KEY\<close> is present; otherwise anthropic whenever \<open>ANTHROPIC_API_KEY\<close> is
  present; otherwise ollama whenever \<open>OLLAMA_API_KEY\<close> is present; otherwise huggingface
  whenever \<open>HUGGINGFACE_API_KEY\<close> is present; and no provider (reported as "none" by the
  health probe) when no credential is present. Present means holding a non-empty value;
  a variable defined as the empty string counts as absent, as in the code.
\<close>

theorem detectProvider_precedence:
  "(present env ''OPENAI_API_KEY'' \<longrightarrow> detectProvider env = Some OpenAI) \<and>
   (\<not> present env ''OPENAI_API_KEY'' \<and> present env ''ANTHROPIC_API_KEY''
      \<longrightarrow> detectProvider env = Some Anthropic) \<and>
   (\<not> present env ''OPENAI_API_KEY'' \<and> \<not> present env ''ANTHROPIC_API_KEY'' \<and>
    present env ''OLLAMA_API_KEY''
      \<longrightarrow> detectProvider env = Some Ollama) \<and>
   (\<not> present env ''OPENAI_API_KEY'' \<and> \<not> present env ''ANTHROPIC_API_KEY'' \<and>
    \<not> present env ''OLLAMA_API_KEY'' \<and> present env ''HUGGINGFACE_API_KEY''
      \<longrightarrow> detectProvider env = Some HuggingFace) \<and>
   (\<not> present env ''OPENAI_API_KEY'' \<and> \<not> present env ''ANTHROPIC_API_KEY'' \<and>
    \<not> present env ''OLLAMA_API_KEY'' \<and> \<not> present env ''HUGGINGFACE_API_KEY''
      \<longrightarrow> detectProvider env = None \<and> provider (GET env) = ''none'')"
  by (simp add: detectProvider_def present_def GET_def)

theorem detectProvider_precedence_witness:
  "detectProvider (map_of [(''OPENAI_API_KEY'', ''a''), (''ANTHROPIC_API_KEY'', ''b''),
                           (''OLLAMA_API_KEY'', ''c''), (''HUGGINGFACE_API_KEY'', ''d'')])
     = Some OpenAI \<and>
   detectProvider (map_of [(''ANTHROPIC_API_KEY'', ''b''), (''OLLAMA_API_KEY'', ''c'')])
     = Some Anthropic \<and>
   detectProvider (map_of [(''OLLAMA_API_KEY'', ''c''), (''HUGGINGFACE_API_KEY'', ''d'')])
     = Some Ollama \<and>
   detectProvider (map_of [(''HUGGINGFACE_API_KEY'', ''d'')]) = Some HuggingFace \<and>
   detectProvider (map_of []) = None"
  using
    detectProvider_precedence [of "map_of [(''OPENAI_API_KEY'', ''a''), (''ANTHROPIC_API_KEY'', ''b''),
                           (''OLLAMA_API_KEY'', ''c''), (''HUGGINGFACE_API_KEY'', ''d'')]"]
    detectProvider_precedence [of "map_of [(''ANTHROPIC_API_KEY'', ''b''), (''OLLAMA_API_KEY'', ''c'')]"]
    detectProvider_precedence [of "map_of [(''OLLAMA_API_KEY'', ''c''), (''HUGGINGFACE_API_KEY'', ''d'')]"]
    detectProvider_precedence [of "map_of [(''HUGGINGFACE_API_KEY'', ''d'')]"]
    detectProvider_precedence [of "map_of []"]
  by (simp add: present_def truthy_str_simps)

text \<open>
  Claim C10. The health probe's \<open>availableProviders\<close> object has exactly the keys
  openai, anthropic and huggingface, with no ollama entry; so in every environment where
  only \<open>OLLAMA_API_KEY\<close> is set the probe reports provider "ollama" while every flag of
  \<open>availableProviders\<close> is false.
\<close>

theorem GET_ollama_not_listed:
  "map fst (availableProviders (GET env)) = [''openai'', ''anthropic'', ''huggingface''] \<and>
   (present env ''OLLAMA_API_KEY'' \<and> \<not> present env ''OPENAI_API_KEY'' \<and>
    \<not> present env ''ANTHROPIC_API_KEY'' \<and> \<not> present env ''HUGGINGFACE_API_KEY''
      \<longrightarrow> provider (GET env) = ''ollama'' \<and>
          list_all (\<lambda>kv. \<not> snd kv) (availableProviders (GET env)))"
  by (simp add: GET_def detectProvider_def present_def provider_name_def)

theorem GET_ollama_not_listed_witness:
  "provider (GET (map_of [(''OLLAMA_API_KEY'', ''k'')])) = ''ollama'' \<and>
   list_all (\<lambda>kv. \<not> snd kv) (availableProviders (GET (map_of [(''OLLAMA_API_KEY'', ''k'')])))"
  using GET_ollama_not_listed [of "map_of [(''OLLAMA_API_KEY'', ''k'')]"]
  by (simp add: present_def truthy_str_simps)

section \<open>The synthesized prompt\<close>

lemma difficultyLevel_unset:
  "difficultyLevel native None = difficultyLevel native (Some ''intermediate'')"
  by (simp add: difficultyLevel_def or_else_def)

lemma difficultyInstructions_unset:
  "difficultyInstructions None = difficultyInstructions (Some ''intermediate'')"
  by (simp add: difficultyInstructions_def)

lemma blocks_default:
  assumes "d \<noteq> Some ''beginner''" and "d \<noteq> Some ''advanced''"
  shows "difficultyInstructions d = difficultyInstructions (Some ''intermediate'')"
    and "coding_block d = coding_block (Some ''intermediate'')"
    and "technical_block d = technical_block (Some ''intermediate'')"
  using assms by (simp_all add: difficultyInstructions_def coding_block_def technical_block_def)

lemma typeInstructions_default:
  assumes "d \<noteq> Some ''beginner''" and "d \<noteq> Some ''advanced''"
  shows "typeInstructions types d = typeInstructions types (Some ''intermediate'')"
  by (simp only: typeInstructions_def blocks_default(2,3) [OF assms])

lemma getSystemPrompt_split:
  "getSystemPrompt native jd its d dur =
     persona_head @ sessionLength dur @ persona_mid @ difficultyLevel native d @
     prompt_tail native jd its d"
  by (simp add: getSystemPrompt_def prompt_tail_def Let_def)

lemma prompt_tail_default:
  assumes "d \<noteq> Some ''beginner''" and "d \<noteq> Some ''advanced''"
  shows "prompt_tail native jd its d = prompt_tail native jd its (Some ''intermediate'')"
  by (simp only: prompt_tail_def blocks_default(1) [OF assms] typeInstructions_default [OF assms])


text \<open>
  Claim C7. For every job description, list of interview types and duration,
  \<open>getSystemPrompt\<close> called with the difficulty unset returns the very prompt it returns
  for the difficulty "intermediate".
\<close>

theorem getSystemPrompt_unset_difficulty:
  "getSystemPrompt native jobDescription interviewTypes None duration =
   getSystemPrompt native jobDescription interviewTypes (Some ''intermediate'') duration"
proof -
  have "prompt_tail native jobDescription interviewTypes None =
      prompt_tail native jobDescription interviewTypes (Some ''intermediate'')"
    by (rule prompt_tail_default) simp_all
  then show ?thesis
    by (simp only: getSystemPrompt_split difficultyLevel_unset)
qed



text \<open>
  Claim C8, as the specification states it: a difficulty outside beginner, intermediate,
  advanced gives the same prompt as "intermediate". It fails for "expert": the first
  line then says "mid-level difficulty" where the intermediate prompt says
  "mid-level, covering practical experience and problem-solving".
\<close>

theorem unrecognized_difficulty_counterexample:
  "getSystemPrompt v8_native None None (Some ''expert'') None
     \<noteq> getSystemPrompt v8_native None None (Some ''intermediate'') None"
proof -
  have "difficultyLevel v8_native (Some ''expert'') = ''mid-level difficulty''"
    by (simp add: difficultyLevel_def or_else_def record_get_def difficultyDescriptions_def
        Object_prototype_keys_def)
  moreover have "difficultyLevel v8_native (Some ''intermediate'') =
      ''mid-level, covering practical experience and problem-solving''"
    by (simp add: difficultyLevel_def or_else_def record_get_def difficultyDescriptions_def)
  ultimately show ?thesis
    by (simp add: getSystemPrompt_split)
qed

text \<open>
  Claim C8, amended: for a difficulty outside beginner, intermediate, advanced the prompt
  is the intermediate prompt (intermediate difficulty block, intermediate variants of the
  coding and technical blocks) except for the difficulty label of its first line. That
  label is "mid-level difficulty", not the intermediate label; only the empty string
  keeps the intermediate label, and a name inherited from \<open>Object.prototype\<close> shows the
  text of that member.
\<close>

theorem unrecognized_difficulty_prompt:
  assumes "d \<notin> set [''beginner'', ''intermediate'', ''advanced'']"
  shows
    "getSystemPrompt native jobDescription interviewTypes (Some d) duration =
       persona_head @ sessionLength duration @ persona_mid @ difficultyLevel native (Some d) @
       prompt_tail native jobDescription interviewTypes (Some ''intermediate'') \<and>
     getSystemPrompt native jobDescription interviewTypes (Some ''intermediate'') duration =
       persona_head @ sessionLength duration @ persona_mid @
       ''mid-level, covering practical experience and problem-solving'' @
       prompt_tail native jobDescription interviewTypes (Some ''intermediate'') \<and>
     difficultyLevel native (Some d) =
       (if d = [] then ''mid-level, covering practical experience and problem-solving''
        else if d \<in> set Object_prototype_keys then or_else (Some (native d)) ''mid-level difficulty''
        else ''mid-level difficulty'')"
proof -
  from assms have d: "Some d \<noteq> Some ''beginner''" "Some d \<noteq> Some ''advanced''"
    by simp_all
  have "difficultyLevel native (Some ''intermediate'') =
      ''mid-level, covering practical experience and problem-solving''"
    by (simp add: difficultyLevel_def or_else_def record_get_def difficultyDescriptions_def)
  moreover have "difficultyLevel native (Some d) =
       (if d = [] then ''mid-level, covering practical experience and problem-solving''
        else if d \<in> set Object_prototype_keys then or_else (Some (native d)) ''mid-level difficulty''
        else ''mid-level difficulty'')"
    using assms
    by (simp add: difficultyLevel_def or_else_def record_get_def difficultyDescriptions_def)
  ultimately show ?thesis
    by (simp only: getSystemPrompt_split prompt_tail_default [OF d] simp_thms)
qed

theorem unrecognized_difficulty_prompt_witness:
  "getSystemPrompt v8_native None (Some [''coding'']) (Some ''expert'') (Some 15) =
     persona_head @ ''15 minute'' @ persona_mid @ ''mid-level difficulty'' @
     prompt_tail v8_native None (Some [''coding'']) (Some ''intermediate'')"
proof -
  have h: "''expert'' \<notin> set [''beginner'', ''intermediate'', ''advanced'']"
    by simp
  have k: "''expert'' \<notin> set Object_prototype_keys"
    by (simp add: Object_prototype_keys_def)
  have s: "sessionLength (Some 15) = ''15 minute''"
    by code_simp
  from unrecognized_difficulty_prompt [OF h, of v8_native None "Some [''coding'']" "Some 15"]
  show ?thesis
    by (simp only: s k if_False list.simps(3) not_Cons_self2)
qed

section \<open>Lines and chunks\<close>

lemma split_nl_nonempty: "split_nl s \<noteq> []"
  by (induction s) (auto split: list.splits)

lemma split_nl_at_newline: "split_nl (a @ CHR 0x0A # b) = split_nl a @ split_nl b"
proof (induction a)
  case Nil
  show ?case by simp
next
  case (Cons c a)
  obtain l ls where "split_nl a = l # ls"
    using split_nl_nonempty [of a] by (cases "split_nl a") auto
  with Cons show ?case by simp
qed

lemma split_nl_single: "CHR 0x0A \<notin> set l \<Longrightarrow> split_nl l = [l]"
  by (induction l) auto

lemma split_nl_frame_chunk:
  "\<forall>l \<in> set ls. CHR 0x0A \<notin> set l \<Longrightarrow> split_nl (frame_chunk ls) = ls @ [[]]"
proof (induction ls)
  case Nil
  show ?case by (simp add: frame_chunk_def)
next
  case (Cons l ls)
  have "frame_chunk (l # ls) = l @ CHR 0x0A # frame_chunk ls"
    by (simp add: frame_chunk_def)
  with Cons show ?case
    by (simp add: split_nl_at_newline split_nl_single)
qed

lemma js_trim_Nil [simp]: "js_trim [] = []"
  by (simp add: js_trim_def)

lemma dropWhile_all_Nil:
  assumes "\<forall>x \<in> set (dropWhile P l). P x"
  shows "dropWhile P l = []"
proof (cases "dropWhile P l")
  case Nil
  then show ?thesis .
next
  case (Cons x xs)
  then have "\<not> P x" using hd_dropWhile [of P l] by simp
  moreover from assms Cons have "P x" by simp
  ultimately show ?thesis by simp
qed

lemma js_trim_blank_iff: "js_trim l = [] \<longleftrightarrow> (\<forall>c \<in> set l. js_whitespace c)"
proof
  assume "js_trim l = []"
  then have "\<forall>x \<in> set (dropWhile js_whitespace l). js_whitespace x"
    by (simp add: js_trim_def)
  then have "dropWhile js_whitespace l = []" by (rule dropWhile_all_Nil)
  then show "\<forall>c \<in> set l. js_whitespace c" by simp
next
  assume "\<forall>c \<in> set l. js_whitespace c"
  then show "js_trim l = []"
    by (auto simp: js_trim_def dest: set_dropWhileD)
qed

lemma startsWith_data: "startsWith l ''data: '' \<longleftrightarrow> take 6 l = ''data: ''"
proof -
  have "length ''data: '' = 6" by simp
  then show ?thesis by (simp only: startsWith_def)
qed

lemma blank_not_data: "js_trim l = [] \<Longrightarrow> \<not> startsWith l ''data: ''"
proof
  assume b: "js_trim l = []" and s: "startsWith l ''data: ''"
  from s obtain r where "l = CHR ''d'' # r"
    by (cases l) (auto simp: startsWith_def)
  with b show False
    by (simp add: js_trim_blank_iff js_whitespace_def)
qed

lemma chunk_lines_frame_chunk:
  "\<forall>l \<in> set ls. CHR 0x0A \<notin> set l \<Longrightarrow>
     chunk_lines (frame_chunk ls) = filter (\<lambda>l. js_trim l \<noteq> []) ls"
  by (simp add: chunk_lines_def split_nl_frame_chunk)

lemma sentinel_line_iff:
  "startsWith l ''data: '' \<and> drop 6 l = ''[DONE]'' \<longleftrightarrow> l = ''data: [DONE]''"
proof
  assume "startsWith l ''data: '' \<and> drop 6 l = ''[DONE]''"
  then have "take 6 l = ''data: ''" and "drop 6 l = ''[DONE]''"
    by (simp_all only: startsWith_data)
  then have "take 6 l @ drop 6 l = ''data: '' @ ''[DONE]''" by (simp only:)
  then show "l = ''data: [DONE]''" by simp
qed (simp add: startsWith_data)

section \<open>The loops of the transforms, line by line\<close>

lemma openai_loop_lines:
  "''data: [DONE]'' \<notin> set ls \<Longrightarrow>
     openai_loop parse ls = concat (map (line_out OpenAI_SSE parse) ls)"
proof (induction ls)
  case Nil
  show ?case by simp
next
  case (Cons l ls)
  then have "\<not> (startsWith l ''data: '' \<and> drop 6 l = ''[DONE]'')"
    by (simp only: sentinel_line_iff) auto
  with Cons show ?case by (auto simp: line_out_def Let_def)
qed

lemma anthropic_loop_lines:
  "anthropic_loop parse ls = concat (map (line_out Anthropic_SSE parse) ls)"
  by (induction ls) (auto simp: line_out_def Let_def)

lemma ollama_loop_lines:
  "ollama_loop parse ls = concat (map (line_out Ollama_NDJSON parse) ls)"
  by (induction ls) (auto simp: line_out_def)

lemma openai_loop_sentinel:
  "openai_loop parse (before @ ''data: [DONE]'' # after) = openai_loop parse before"
  by (induction before) (simp_all add: startsWith_def Let_def)

lemma transform_frame_chunk:
  assumes "\<forall>l \<in> set ls. CHR 0x0A \<notin> set l"
    and "fmt = OpenAI_SSE \<Longrightarrow> ''data: [DONE]'' \<notin> set ls"
  shows "transform_of fmt parse (frame_chunk ls) =
           concat (map (line_out fmt parse) (filter (\<lambda>l. js_trim l \<noteq> []) ls))"
proof (cases fmt)
  case OpenAI_SSE
  with assms(2) have "''data: [DONE]'' \<notin> set (filter (\<lambda>l. js_trim l \<noteq> []) ls)" by simp
  from openai_loop_lines [OF this, of parse] OpenAI_SSE show ?thesis
    by (simp only: transform_of_def wire_format.case streamOpenAI_transform_def
        chunk_lines_frame_chunk [OF assms(1)])
next
  case Anthropic_SSE
  then show ?thesis
    by (simp only: transform_of_def wire_format.case streamAnthropic_transform_def
        chunk_lines_frame_chunk [OF assms(1)] anthropic_loop_lines)
next
  case Ollama_NDJSON
  then show ?thesis
    by (simp only: transform_of_def wire_format.case streamOllama_transform_def
        chunk_lines_frame_chunk [OF assms(1)] ollama_loop_lines)
qed

section \<open>What one line contributes\<close>

lemma enqueue_text_field:
  "text_field v = Some t \<Longrightarrow> enqueue_content v = Inr (if t = [] then [] else [t])"
  by (auto simp: text_field_def enqueue_content_def truthy_def split: option.splits json.splits)

lemma first_choice_index0:
  "first_choice j = Some c \<Longrightarrow>
     \<exists>kvs. j = JObject kvs \<and> opt_index0 (own_property kvs ''choices'') = Some (JObject c)"
  by (auto simp: first_choice_def opt_index0_def split: json.splits option.splits list.splits)

lemma openai_try_frame:
  assumes "parse p = Some j" and "frame_text OpenAI_SSE j = Some t"
  shows "openai_try parse p = Inr (if t = [] then [] else [t])"
proof -
  from assms(2) obtain c d where c: "first_choice j = Some c"
    and d: "own_property c ''delta'' = Some (JObject d)"
    and t: "text_field (own_property d ''content'') = Some t"
    by (auto simp: frame_text_def split: option.splits json.splits)
  from first_choice_index0 [OF c] obtain kvs where j: "j = JObject kvs"
    and i: "opt_index0 (own_property kvs ''choices'') = Some (JObject c)" by blast
  show ?thesis
    using assms(1) j i d enqueue_text_field [OF t]
    by (simp add: openai_try_def get_prop_def opt_prop_def)
qed

lemma anthropic_try_frame:
  assumes "parse p = Some j" and "frame_text Anthropic_SSE j = Some t"
  shows "anthropic_try parse p = Inr (if t = [] then [] else [t])"
proof -
  from assms(2) obtain kvs ty where j: "j = JObject kvs"
    and ty: "own_property kvs ''type'' = Some (JString ty)"
    by (auto simp: frame_text_def split: option.splits json.splits)
  show ?thesis
  proof (cases "ty = ''content_block_delta''")
    case True
    with assms(2) j ty obtain d where d: "own_property kvs ''delta'' = Some (JObject d)"
      and t: "text_field (own_property d ''text'') = Some t"
      by (auto simp: frame_text_def split: option.splits json.splits)
    show ?thesis
      using assms(1) j ty True d enqueue_text_field [OF t]
      by (simp add: anthropic_try_def get_prop_def opt_prop_def)
  next
    case False
    with assms(2) j ty have "t = []" by (simp add: frame_text_def)
    with assms(1) j ty False show ?thesis
      by (simp add: anthropic_try_def get_prop_def)
  qed
qed

lemma ollama_try_frame:
  assumes "parse p = Some j" and "frame_text Ollama_NDJSON j = Some t"
  shows "ollama_try parse p = Inr (if t = [] then [] else [t])"
proof -
  from assms(2) obtain c where c: "first_choice j = Some c"
    and t: "text_field (own_property c ''text'') = Some t"
    by (auto simp: frame_text_def split: option.splits)
  from first_choice_index0 [OF c] obtain kvs where j: "j = JObject kvs"
    and i: "opt_index0 (own_property kvs ''choices'') = Some (JObject c)" by blast
  show ?thesis
    using assms(1) j i enqueue_text_field [OF t]
    by (simp add: ollama_try_def get_prop_def opt_prop_def)
qed

lemma line_out_frame:
  assumes "decoded_text fmt parse l = Some t"
  shows "line_out fmt parse l = (if t = [] then [] else [t])" and "js_trim l \<noteq> []"
proof -
  from assms obtain p j where p: "frame_payload fmt l = Some p"
    and j: "parse p = Some j" and t: "frame_text fmt j = Some t"
    by (auto simp: decoded_text_def split: option.splits)
  show "js_trim l \<noteq> []"
    using p blank_not_data [of l]
    by (cases fmt) (auto simp: frame_payload_def split: if_splits)
  show "line_out fmt parse l = (if t = [] then [] else [t])"
  proof (cases fmt)
    case OpenAI_SSE
    with p have "startsWith l ''data: ''" "p = drop 6 l"
      by (auto simp: frame_payload_def split: if_splits)
    with OpenAI_SSE openai_try_frame [of parse p j t, OF j] t show ?thesis
      by (simp add: line_out_def catch_ignore_def)
  next
    case Anthropic_SSE
    with p have "startsWith l ''data: ''" "p = drop 6 l"
      by (auto simp: frame_payload_def split: if_splits)
    with Anthropic_SSE anthropic_try_frame [of parse p j t, OF j] t show ?thesis
      by (simp add: line_out_def catch_ignore_def)
  next
    case Ollama_NDJSON
    with p have "p = l"
      by (auto simp: frame_payload_def split: if_splits)
    with Ollama_NDJSON ollama_try_frame [of parse p j t, OF j] t show ?thesis
      by (simp add: line_out_def catch_ignore_def)
  qed
qed

lemma line_out_malformed:
  assumes "malformed_frame fmt parse l"
  shows "line_out fmt parse l = []" and "decoded_text fmt parse l = None"
proof -
  from assms obtain p where p: "frame_payload fmt l = Some p" and n: "parse p = None"
    by (auto simp: malformed_frame_def split: option.splits)
  show "decoded_text fmt parse l = None"
    using p n by (simp add: decoded_text_def)
  show "line_out fmt parse l = []"
    using p n
    by (cases fmt)
      (auto simp: frame_payload_def line_out_def catch_ignore_def openai_try_def
        anthropic_try_def ollama_try_def split: if_splits)
qed

lemma line_out_silent:
  assumes "silent_line fmt l"
  shows "js_trim l \<noteq> [] \<Longrightarrow> line_out fmt parse l = []" and "decoded_text fmt parse l = None"
  using assms
  by (cases fmt; simp add: silent_line_def line_out_def decoded_text_def frame_payload_def)+

lemma line_contribution:
  assumes "silent_line fmt l \<or> malformed_frame fmt parse l \<or> well_formed_frame fmt parse l"
  shows "(if js_trim l \<noteq> [] then line_out fmt parse l else []) =
           (if line_text fmt parse l = [] then [] else [line_text fmt parse l])"
proof -
  consider (s) "silent_line fmt l" | (m) "malformed_frame fmt parse l"
    | (w) t where "decoded_text fmt parse l = Some t"
    using assms by (auto simp: well_formed_frame_def)
  then show ?thesis
  proof cases
    case s
    from line_out_silent [OF s, of parse] show ?thesis
      by (cases "js_trim l = []") (simp_all add: line_text_def)
  next
    case m
    from line_out_malformed [OF m] show ?thesis
      by (simp add: line_text_def)
  next
    case w
    from line_out_frame [OF w] w show ?thesis
      by (simp add: line_text_def)
  qed
qed

lemma sentinel_not_tolerated:
  "\<not> (silent_line OpenAI_SSE ''data: [DONE]'' \<or> malformed_frame OpenAI_SSE parse ''data: [DONE]''
      \<or> well_formed_frame OpenAI_SSE parse ''data: [DONE]'')"
  by (simp add: silent_line_def malformed_frame_def well_formed_frame_def decoded_text_def
      frame_payload_def startsWith_def)

lemma chunk_contribution:
  assumes nl: "\<forall>l \<in> set ls. CHR 0x0A \<notin> set l"
    and ok: "\<forall>l \<in> set ls. silent_line fmt l \<or> malformed_frame fmt parse l \<or> well_formed_frame fmt parse l"
  shows "transform_of fmt parse (frame_chunk ls) =
           filter (\<lambda>t. t \<noteq> []) (map (line_text fmt parse) ls)"
proof -
  have "fmt = OpenAI_SSE \<Longrightarrow> ''data: [DONE]'' \<notin> set ls"
    using ok sentinel_not_tolerated [of parse] by blast
  from transform_frame_chunk [OF nl this]
  have "transform_of fmt parse (frame_chunk ls) =
      concat (map (line_out fmt parse) (filter (\<lambda>l. js_trim l \<noteq> []) ls))"
    by simp
  also have "\<dots> = filter (\<lambda>t. t \<noteq> []) (map (line_text fmt parse) ls)"
    using ok
  proof (induction ls)
    case Nil
    show ?case by simp
  next
    case (Cons l ls)
    from Cons.prems line_contribution [of fmt l parse]
    have "(if js_trim l \<noteq> [] then line_out fmt parse l else []) =
        (if line_text fmt parse l = [] then [] else [line_text fmt parse l])"
      by simp
    with Cons show ?case by (cases "js_trim l = []") (auto split: if_splits)
  qed
  finally show ?thesis .
qed

lemma stream_contribution:
  assumes nl: "\<forall>l \<in> set (concat groups). CHR 0x0A \<notin> set l"
    and ok: "\<forall>l \<in> set (concat groups).
        silent_line fmt l \<or> malformed_frame fmt parse l \<or> well_formed_frame fmt parse l"
  shows "pipeThrough (transform_of fmt parse) (map frame_chunk groups) =
           filter (\<lambda>t. t \<noteq> []) (map (line_text fmt parse) (concat groups))"
  using assms
proof (induction groups)
  case Nil
  show ?case by (simp add: pipeThrough_def)
next
  case (Cons g groups)
  have "transform_of fmt parse (frame_chunk g) =
      filter (\<lambda>t. t \<noteq> []) (map (line_text fmt parse) g)"
    using Cons.prems by (intro chunk_contribution) auto
  moreover have "pipeThrough (transform_of fmt parse) (map frame_chunk groups) =
      filter (\<lambda>t. t \<noteq> []) (map (line_text fmt parse) (concat groups))"
    using Cons.prems by (intro Cons.IH) auto
  ultimately show ?case by (simp add: pipeThrough_def)
qed

lemma concat_nonempty: "concat (filter (\<lambda>t. t \<noteq> []) xs) = concat xs"
  by (induction xs) simp_all

lemma line_text_not_frame: "\<not> well_formed_frame fmt parse l \<Longrightarrow> line_text fmt parse l = []"
  by (simp add: well_formed_frame_def line_text_def)

lemma texts_of_frames:
  "filter (\<lambda>t. t \<noteq> []) (map (line_text fmt parse) ls) =
   filter (\<lambda>t. t \<noteq> []) (map (line_text fmt parse) (filter (well_formed_frame fmt parse) ls))"
  by (induction ls) (simp_all add: line_text_not_frame)

lemma pipeThrough_append:
  "pipeThrough f (xs @ ys) = pipeThrough f xs @ pipeThrough f ys"
  by (simp add: pipeThrough_def)

lemma openai_loop_before_sentinel:
  "openai_loop parse ls =
     concat (map (line_out OpenAI_SSE parse) (takeWhile (\<lambda>l. l \<noteq> ''data: [DONE]'') ls))"
proof (cases "''data: [DONE]'' \<in> set ls")
  case False
  then have tw: "takeWhile (\<lambda>l. l \<noteq> ''data: [DONE]'') ls = ls"
    by (auto simp: takeWhile_eq_all_conv)
  show ?thesis
    by (simp only: tw openai_loop_lines [OF False])
next
  case True
  then obtain before after where ls: "ls = before @ ''data: [DONE]'' # after"
    and b: "''data: [DONE]'' \<notin> set before"
    by (auto dest: split_list_first)
  from b have tw: "takeWhile (\<lambda>l. l \<noteq> ''data: [DONE]'') ls = before"
    unfolding ls by (auto simp: takeWhile_tail)
  have "openai_loop parse ls = openai_loop parse before"
    unfolding ls by (rule openai_loop_sentinel)
  also have "\<dots> = concat (map (line_out OpenAI_SSE parse) before)"
    by (rule openai_loop_lines [OF b])
  finally show ?thesis
    by (simp only: tw)
qed

section \<open>Reassembly of the reply\<close>

text \<open>
  Claim C2, as the specification states it: however the upstream body is cut into chunks,
  the chunks a transform emits concatenate to the text the frames carry. It fails as soon
  as a cut falls inside a line. The body below is one OpenAI frame carrying "Hi"; cut
  after its second character, nothing is emitted, while the uncut body yields "Hi". The
  same holds for a newline-delimited frame cut inside its JSON.
\<close>

theorem reassembly_any_split_counterexample:
  \<open>decoded_text OpenAI_SSE json_reader ''data: {"choices":[{"delta":{"content":"Hi"}}]}'' = Some ''Hi'' \<and>
   ''da'' @ ''ta: {"choices":[{"delta":{"content":"Hi"}}]}\<newline>\<newline>'' =
     frame_chunk [''data: {"choices":[{"delta":{"content":"Hi"}}]}'', ''''] \<and>
   concat (pipeThrough (streamOpenAI_transform json_reader)
     [''da'', ''ta: {"choices":[{"delta":{"content":"Hi"}}]}\<newline>\<newline>'']) \<noteq> ''Hi'' \<and>
   concat (pipeThrough (streamOpenAI_transform json_reader)
     [''data: {"choices":[{"delta":{"content":"Hi"}}]}\<newline>\<newline>'']) = ''Hi'' \<and>
   decoded_text Ollama_NDJSON json_reader ''{"choices":[{"text":"Hi"}]}'' = Some ''Hi'' \<and>
   concat (pipeThrough (streamOllama_transform json_reader)
     [''{"choices":[{"te'', ''xt":"Hi"}]}\<newline>'']) \<noteq> ''Hi''\<close>
  by code_simp

text \<open>
  Claim C2, amended: when every upstream chunk is made of whole lines (no line is cut by a
  chunk boundary), and every line is a well-formed frame of the format or a line that is
  no frame (a blank line, another field of a server-sent event), then the chunks the
  transform emits concatenate, in order of emission, to the texts the frames carry, in
  order of arrival; the grouping of the lines into chunks does not matter.
\<close>

theorem reassembly_whole_line_chunks:
  assumes "\<forall>l \<in> set (concat groups).
      CHR 0x0A \<notin> set l \<and> (silent_line fmt l \<or> well_formed_frame fmt parse l)"
  shows "concat (pipeThrough (transform_of fmt parse) (map frame_chunk groups)) =
           concat (map (line_text fmt parse) (concat groups))"
proof -
  from assms have "\<forall>l \<in> set (concat groups). CHR 0x0A \<notin> set l"
    and "\<forall>l \<in> set (concat groups).
      silent_line fmt l \<or> malformed_frame fmt parse l \<or> well_formed_frame fmt parse l"
    by blast+
  from stream_contribution [OF this] show ?thesis
    by (simp only: concat_nonempty)
qed

theorem reassembly_whole_line_chunks_witness:
  \<open>concat (pipeThrough (transform_of OpenAI_SSE json_reader)
      (map frame_chunk
        [[''data: {"choices":[{"delta":{"role":"assistant","content":""}}]}'', ''''],
         [''data: {"choices":[{"delta":{"content":"Hi"}}]}'', '''',
          ''data: {"choices":[{"delta":{"content":" there"}}]}'', ''''],
         [''data: {"choices":[{"delta":{},"finish_reason":"stop"}]}'', '''']])) = ''Hi there''\<close>
proof -
  let ?groups = \<open>[[''data: {"choices":[{"delta":{"role":"assistant","content":""}}]}'', ''''],
         [''data: {"choices":[{"delta":{"content":"Hi"}}]}'', '''',
          ''data: {"choices":[{"delta":{"content":" there"}}]}'', ''''],
         [''data: {"choices":[{"delta":{},"finish_reason":"stop"}]}'', '''']]\<close>
  have h: "\<forall>l \<in> set (concat ?groups).
      CHR 0x0A \<notin> set l \<and> (silent_line OpenAI_SSE l \<or> well_formed_frame OpenAI_SSE json_reader l)"
    by code_simp
  have t: "concat (map (line_text OpenAI_SSE json_reader) (concat ?groups)) = ''Hi there''"
    by code_simp
  from reassembly_whole_line_chunks [OF h] t show ?thesis
    by (simp only:)
qed

section \<open>The OpenAI sentinel\<close>

text \<open>
  Claim C3, as the specification states it: once the sentinel line has been seen, no data
  line contributes any more, in the same chunk or in a later one. It fails for a later
  chunk: the transform keeps no state between chunks, and a data line that arrives in the
  chunk after the sentinel's is decoded and emitted.
\<close>

theorem sentinel_later_chunk_counterexample:
  \<open>pipeThrough (streamOpenAI_transform json_reader)
     [''data: [DONE]\<newline>\<newline>'',
      ''data: {"choices":[{"delta":{"content":"late"}}]}\<newline>\<newline>''] = [''late''] \<and>
   pipeThrough (streamOpenAI_transform json_reader) [''data: [DONE]\<newline>\<newline>''] = []\<close>
  by code_simp

text \<open>
  Claim C3, amended: in the upstream chunk in which the sentinel line stands, only the
  lines before the first sentinel line contribute, each what it contributes anywhere, and
  no line after it does; the chunks before and the chunks after that chunk are
  transformed as if there were no sentinel.
\<close>

theorem sentinel_stops_its_chunk:
  "pipeThrough (streamOpenAI_transform parse) (earlier @ [chunk] @ later) =
     pipeThrough (streamOpenAI_transform parse) earlier @
     concat (map (line_out OpenAI_SSE parse)
       (takeWhile (\<lambda>l. l \<noteq> ''data: [DONE]'') (chunk_lines chunk))) @
     pipeThrough (streamOpenAI_transform parse) later"
  by (simp add: pipeThrough_def streamOpenAI_transform_def openai_loop_before_sentinel)

section \<open>Malformed frames\<close>

text \<open>
  Claim C5, as the specification states it: in every upstream body that holds a line with
  an unparsable payload among valid lines, the transform still emits the content of every
  valid line. It fails when a chunk boundary cuts a valid line: of the body below, a
  malformed line followed by a frame carrying "Hi", nothing is emitted when the cut falls
  inside the second line, while the same body in one chunk yields "Hi". It fails as well
  when the unparsable payload is the OpenAI sentinel, which ends the chunk.
\<close>

theorem malformed_split_line_counterexample:
  \<open>malformed_frame OpenAI_SSE json_reader ''data: {bad'' \<and>
   decoded_text OpenAI_SSE json_reader ''data: {"choices":[{"delta":{"content":"Hi"}}]}'' = Some ''Hi'' \<and>
   ''data: {bad\<newline>da'' @ ''ta: {"choices":[{"delta":{"content":"Hi"}}]}\<newline>'' =
     frame_chunk [''data: {bad'', ''data: {"choices":[{"delta":{"content":"Hi"}}]}''] \<and>
   pipeThrough (streamOpenAI_transform json_reader)
     [''data: {bad\<newline>da'', ''ta: {"choices":[{"delta":{"content":"Hi"}}]}\<newline>''] = [] \<and>
   pipeThrough (streamOpenAI_transform json_reader)
     [frame_chunk [''data: {bad'', ''data: {"choices":[{"delta":{"content":"Hi"}}]}'']] = [''Hi''] \<and>
   json_reader ''[DONE]'' = None \<and>
   pipeThrough (streamOpenAI_transform json_reader)
     [frame_chunk [''data: [DONE]'', ''data: {"choices":[{"delta":{"content":"Hi"}}]}'']] = []\<close>
  by code_simp

text \<open>
  Claim C5, amended: when the upstream body arrives in chunks of whole lines, and its
  lines are well-formed frames, lines that are no frames, and frame lines whose JSON
  payload does not parse (the OpenAI sentinel is a terminator, not such a line), the
  transform skips each unparsable line (the error is caught, the stream goes on) and
  emits exactly the texts of the well-formed frames, one chunk per frame with a non-empty
  text, in order.
\<close>

theorem malformed_lines_skipped:
  assumes "\<forall>l \<in> set (concat groups).
      CHR 0x0A \<notin> set l \<and>
      (silent_line fmt l \<or> malformed_frame fmt parse l \<or> well_formed_frame fmt parse l)"
  shows "pipeThrough (transform_of fmt parse) (map frame_chunk groups) =
           filter (\<lambda>t. t \<noteq> [])
             (map (line_text fmt parse) (filter (well_formed_frame fmt parse) (concat groups)))"
proof -
  from assms have "\<forall>l \<in> set (concat groups). CHR 0x0A \<notin> set l"
    and "\<forall>l \<in> set (concat groups).
      silent_line fmt l \<or> malformed_frame fmt parse l \<or> well_formed_frame fmt parse l"
    by blast+
  from stream_contribution [OF this] show ?thesis
    by (simp only: texts_of_frames [symmetric])
qed

theorem malformed_lines_skipped_witness:
  \<open>malformed_frame Ollama_NDJSON json_reader ''{"choices":[{"text":'' \<and>
   pipeThrough (transform_of Ollama_NDJSON json_reader)
      (map frame_chunk
        [[''{"choices":[{"text":"a"}]}'', ''{"choices":[{"text":'', ''{"choices":[{"text":"b"}]}''],
         [''{"choices":[{"text":"c"}]}'']]) = [''a'', ''b'', ''c'']\<close>
proof -
  let ?groups = \<open>[[''{"choices":[{"text":"a"}]}'', ''{"choices":[{"text":'', ''{"choices":[{"text":"b"}]}''],
         [''{"choices":[{"text":"c"}]}'']]\<close>
  have h: "\<forall>l \<in> set (concat ?groups).
      CHR 0x0A \<notin> set l \<and>
      (silent_line Ollama_NDJSON l \<or> malformed_frame Ollama_NDJSON json_reader l
        \<or> well_formed_frame Ollama_NDJSON json_reader l)"
    by code_simp
  have m: \<open>malformed_frame Ollama_NDJSON json_reader ''{"choices":[{"text":''\<close>
    by code_simp
  have t: "filter (\<lambda>t. t \<noteq> []) (map (line_text Ollama_NDJSON json_reader)
      (filter (well_formed_frame Ollama_NDJSON json_reader) (concat ?groups))) = [''a'', ''b'', ''c'']"
    by code_simp
  from malformed_lines_skipped [OF h] t m show ?thesis
    by (simp only: simp_thms)
qed

section \<open>The history in the upstream payloads\<close>








lemma huggingface_drops_system:
  "hf_inputs (build_huggingface_body
      [\<lparr> role = System, content = ''Be brief.'' \<rparr>, \<lparr> role = User, content = ''Hello'' \<rparr>] ''P'')
     = ''<s>[INST] P\<newline>\<newline>[INST] Hello [/INST]''"
  by (simp add: build_huggingface_body_def formatMessagesAsPrompt_def)




section \<open>Failing fast without a credential\<close>

lemma upstream_call_calls: "snd (upstream_call rt req name use_body) = [req]"
  by (simp add: upstream_call_def)

lemma adapter_text_not_no_keys:
  "name \<in> set [''OpenAI'', ''Anthropic'', ''Ollama'', ''Hugging Face''] \<Longrightarrow>
     name @ rest \<noteq> no_keys_text"
  by (auto simp: no_keys_text_def)

lemma upstream_call_not_no_keys:
  assumes "name \<in> set [''OpenAI'', ''Anthropic'', ''Ollama'', ''Hugging Face'']"
    and "\<And>chunks. \<not> no_keys_outcome (use_body chunks)"
  shows "\<not> no_keys_outcome (fst (upstream_call rt req name use_body))"
proof (cases "fetch rt req")
  case Rejected
  then show ?thesis by (simp add: upstream_call_def no_keys_outcome_def)
next
  case (Responded st chunks)
  show ?thesis
  proof (cases "response_ok st")
    case True
    with Responded assms(2) [of chunks] show ?thesis by (simp add: upstream_call_def)
  next
    case False
    with Responded adapter_text_not_no_keys [OF assms(1)] show ?thesis
      by (simp add: upstream_call_def no_keys_outcome_def)
  qed
qed

lemma adapters_not_no_keys:
  "\<not> no_keys_outcome (fst (streamOpenAI rt env ms sp))"
  "\<not> no_keys_outcome (fst (streamAnthropic rt env ms sp))"
  "\<not> no_keys_outcome (fst (streamOllama rt env ms sp))"
  "\<not> no_keys_outcome (fst (callHuggingFace rt env ms sp))"
  unfolding streamOpenAI_def streamAnthropic_def streamOllama_def callHuggingFace_def
  by (rule upstream_call_not_no_keys;
      simp add: no_keys_outcome_def generated_text_def Let_def
        split: option.splits sum.splits json.splits list.splits)+

lemma adapters_one_call:
  "length (snd (streamOpenAI rt env ms sp)) = 1"
  "length (snd (streamAnthropic rt env ms sp)) = 1"
  "length (snd (streamOllama rt env ms sp)) = 1"
  "length (snd (callHuggingFace rt env ms sp)) = 1"
  by (simp_all add: streamOpenAI_def streamAnthropic_def streamOllama_def callHuggingFace_def
      upstream_call_calls)

lemma dispatch_facts:
  "\<not> no_keys_outcome (fst (dispatch rt env p ms sp))"
  "length (snd (dispatch rt env p ms sp)) = 1"
  by (cases p; simp add: dispatch_def adapters_not_no_keys adapters_one_call)+

lemma POST_dispatch:
  assumes "detectProvider env = Some p"
  shows "POST rt env (JsonBody (ChatRequest (Messages ms) jd its d dur)) =
     (case fst (dispatch rt env p ms (getSystemPrompt (native_text rt) jd its d dur)) of
        Inl e \<Rightarrow> NextResponse_json e 500
      | Inr r \<Rightarrow> r,
      snd (dispatch rt env p ms (getSystemPrompt (native_text rt) jd its d dur)))"
  using assms by (simp add: POST_def dispatch_def Let_def split: prod.splits)

lemma respond_not_no_keys:
  assumes "\<not> no_keys_outcome out"
  shows "(case out of Inl e \<Rightarrow> NextResponse_json e 500 | Inr r \<Rightarrow> r)
           \<noteq> NextResponse_json (Text no_keys_text) 500"
  using assms by (cases out) (auto simp: no_keys_outcome_def)

lemma POST_with_provider:
  assumes "detectProvider env = Some p"
  shows "fst (POST rt env (JsonBody (ChatRequest (Messages ms) jd its d dur)))
           \<noteq> NextResponse_json (Text no_keys_text) 500"
    and "length (snd (POST rt env (JsonBody (ChatRequest (Messages ms) jd its d dur)))) = 1"
  by (simp_all only: POST_dispatch [OF assms] fst_conv snd_conv respond_not_no_keys
      dispatch_facts not_False_eq_True)

lemma detectProvider_None_iff:
  "detectProvider env = None \<longleftrightarrow>
     \<not> present env ''OPENAI_API_KEY'' \<and> \<not> present env ''ANTHROPIC_API_KEY'' \<and>
     \<not> present env ''OLLAMA_API_KEY'' \<and> \<not> present env ''HUGGINGFACE_API_KEY''"
  by (simp add: detectProvider_def present_def)

text \<open>
  Claim C9. With no credential variable set, every \<open>POST\<close> that carries a messages array
  is answered with status 500 before any upstream call is made, and the error text names
  the credential variables; with at least one credential set the answer is not that
  configuration error: one upstream call is made. A variable is set when it holds a
  non-empty value, and a message worded by the engine is not the text of the route.
\<close>

theorem POST_no_credential:
  "(\<not> present env ''OPENAI_API_KEY'' \<and> \<not> present env ''ANTHROPIC_API_KEY'' \<and>
    \<not> present env ''OLLAMA_API_KEY'' \<and> \<not> present env ''HUGGINGFACE_API_KEY''
      \<longrightarrow> POST rt env (JsonBody (ChatRequest (Messages ms) jd its d dur)) =
            (NextResponse_json
               (Text ''No API keys configured. Set OPENAI_API_KEY, ANTHROPIC_API_KEY, or HUGGINGFACE_API_KEY'')
               500, [])) \<and>
   (present env ''OPENAI_API_KEY'' \<or> present env ''ANTHROPIC_API_KEY'' \<or>
    present env ''OLLAMA_API_KEY'' \<or> present env ''HUGGINGFACE_API_KEY''
      \<longrightarrow> fst (POST rt env (JsonBody (ChatRequest (Messages ms) jd its d dur))) \<noteq>
            NextResponse_json
               (Text ''No API keys configured. Set OPENAI_API_KEY, ANTHROPIC_API_KEY, or HUGGINGFACE_API_KEY'')
               500 \<and>
          length (snd (POST rt env (JsonBody (ChatRequest (Messages ms) jd its d dur)))) = 1)"
proof (intro conjI impI)
  assume "\<not> present env ''OPENAI_API_KEY'' \<and> \<not> present env ''ANTHROPIC_API_KEY'' \<and>
    \<not> present env ''OLLAMA_API_KEY'' \<and> \<not> present env ''HUGGINGFACE_API_KEY''"
  then have "detectProvider env = None" by (simp add: detectProvider_None_iff)
  then show "POST rt env (JsonBody (ChatRequest (Messages ms) jd its d dur)) =
      (NextResponse_json
         (Text ''No API keys configured. Set OPENAI_API_KEY, ANTHROPIC_API_KEY, or HUGGINGFACE_API_KEY'')
         500, [])"
    by (simp add: POST_def no_keys_text_def)
next
  assume "present env ''OPENAI_API_KEY'' \<or> present env ''ANTHROPIC_API_KEY'' \<or>
    present env ''OLLAMA_API_KEY'' \<or> present env ''HUGGINGFACE_API_KEY''"
  then have "detectProvider env \<noteq> None" unfolding detectProvider_None_iff by blast
  then obtain p where p: "detectProvider env = Some p" by blast
  from POST_with_provider [OF p]
  show "fst (POST rt env (JsonBody (ChatRequest (Messages ms) jd its d dur))) \<noteq>
      NextResponse_json
         (Text ''No API keys configured. Set OPENAI_API_KEY, ANTHROPIC_API_KEY, or HUGGINGFACE_API_KEY'')
         500"
    and "length (snd (POST rt env (JsonBody (ChatRequest (Messages ms) jd its d dur)))) = 1"
    by (simp_all add: no_keys_text_def)
qed

theorem POST_no_credential_witness:
  "POST fixture_runtime Map.empty
     (JsonBody (ChatRequest (Messages [\<lparr> role = User, content = ''Hello'' \<rparr>]) None None None None)) =
     (NextResponse_json
        (Text ''No API keys configured. Set OPENAI_API_KEY, ANTHROPIC_API_KEY, or HUGGINGFACE_API_KEY'')
        500, []) \<and>
   fst (POST fixture_runtime (map_of [(''OLLAMA_API_KEY'', ''k'')])
     (JsonBody (ChatRequest (Messages [\<lparr> role = User, content = ''Hello'' \<rparr>]) None None None None))) \<noteq>
     NextResponse_json
        (Text ''No API keys configured. Set OPENAI_API_KEY, ANTHROPIC_API_KEY, or HUGGINGFACE_API_KEY'')
        500 \<and>
   length (snd (POST fixture_runtime (map_of [(''OLLAMA_API_KEY'', ''k'')])
     (JsonBody (ChatRequest (Messages [\<lparr> role = User, content = ''Hello'' \<rparr>]) None None None None)))) = 1"
  using
    POST_no_credential [of Map.empty fixture_runtime "[\<lparr> role = User, content = ''Hello'' \<rparr>]"
      None None None None]
    POST_no_credential [of "map_of [(''OLLAMA_API_KEY'', ''k'')]" fixture_runtime
      "[\<lparr> role = User, content = ''Hello'' \<rparr>]" None None None None]
  by (simp add: present_def truthy_str_simps)

end
